theory Spec2Isabelle
  imports Main "HOL-Library.Word" "HOL-Library.Signed_Division"
begin

unbundle bit_operations_syntax

section \<open>Bytes, keys and Go library types\<close>

type_synonym byte = "8 word"
type_synonym uint32 = "32 word"

text \<open>
  \<^verbatim>\<open>wgtypes.Key\<close> is \<^verbatim>\<open>[32]byte\<close>; keys are compared with the array equality of Go,
  which is equality of byte lists here. The zero value \<^verbatim>\<open>wgtypes.Key{}\<close> is 32 zero bytes.
\<close>

type_synonym Key = "byte list"

definition zeroKey :: Key where
  "zeroKey = replicate 32 0"

text \<open>
  \<^verbatim>\<open>net.IPNet\<close>: an address and a mask, both byte slices (\<^verbatim>\<open>nil\<close> is the empty list).
\<close>

record IPNet =
  net_IP :: "byte list"
  net_Mask :: "byte list"

text \<open>
  A run-time panic of Go is a value of the model. The \<^verbatim>\<open>int\<close> values of the program
  (lengths, counts of mask bits, ports, a number of seconds below 40) stay far from the
  bounds of the machine type: they are \<open>int\<close> here.
\<close>

datatype panic = IndexOutOfRange

section \<open>SHA-256 (\<^verbatim>\<open>crypto/sha256.Sum256\<close>, FIPS 180-4)\<close>

definition K256 :: "uint32 list" where
  "K256 =
     [0x428a2f98, 0x71374491, 0xb5c0fbcf, 0xe9b5dba5, 0x3956c25b, 0x59f111f1, 0x923f82a4, 0xab1c5ed5] @
     [0xd807aa98, 0x12835b01, 0x243185be, 0x550c7dc3, 0x72be5d74, 0x80deb1fe, 0x9bdc06a7, 0xc19bf174] @
     [0xe49b69c1, 0xefbe4786, 0x0fc19dc6, 0x240ca1cc, 0x2de92c6f, 0x4a7484aa, 0x5cb0a9dc, 0x76f988da] @
     [0x983e5152, 0xa831c66d, 0xb00327c8, 0xbf597fc7, 0xc6e00bf3, 0xd5a79147, 0x06ca6351, 0x14292967] @
     [0x27b70a85, 0x2e1b2138, 0x4d2c6dfc, 0x53380d13, 0x650a7354, 0x766a0abb, 0x81c2c92e, 0x92722c85] @
     [0xa2bfe8a1, 0xa81a664b, 0xc24b8b70, 0xc76c51a3, 0xd192e819, 0xd6990624, 0xf40e3585, 0x106aa070] @
     [0x19a4c116, 0x1e376c08, 0x2748774c, 0x34b0bcb5, 0x391c0cb3, 0x4ed8aa4a, 0x5b9cca4f, 0x682e6ff3] @
     [0x748f82ee, 0x78a5636f, 0x84c87814, 0x8cc70208, 0x90befffa, 0xa4506ceb, 0xbef9a3f7, 0xc67178f2]"

definition init256 :: "uint32 list" where
  "init256 =
    [0x6a09e667, 0xbb67ae85, 0x3c6ef372, 0xa54ff53a, 0x510e527f, 0x9b05688c, 0x1f83d9ab, 0x5be0cd19]"

definition Ch :: "uint32 \<Rightarrow> uint32 \<Rightarrow> uint32 \<Rightarrow> uint32" where
  "Ch x y z = (x AND y) XOR (NOT x AND z)"

definition Maj :: "uint32 \<Rightarrow> uint32 \<Rightarrow> uint32 \<Rightarrow> uint32" where
  "Maj x y z = (x AND y) XOR (x AND z) XOR (y AND z)"

definition bsig0 :: "uint32 \<Rightarrow> uint32" where
  "bsig0 x = word_rotr 2 x XOR word_rotr 13 x XOR word_rotr 22 x"

definition bsig1 :: "uint32 \<Rightarrow> uint32" where
  "bsig1 x = word_rotr 6 x XOR word_rotr 11 x XOR word_rotr 25 x"

definition ssig0 :: "uint32 \<Rightarrow> uint32" where
  "ssig0 x = word_rotr 7 x XOR word_rotr 18 x XOR drop_bit 3 x"

definition ssig1 :: "uint32 \<Rightarrow> uint32" where
  "ssig1 x = word_rotr 17 x XOR word_rotr 19 x XOR drop_bit 10 x"

text \<open>The message, the byte 0x80, zero bytes up to 56 modulo 64, the bit length on 8 bytes.\<close>

definition padding :: "byte list \<Rightarrow> byte list" where
  "padding msg =
     msg @ [0x80] @ replicate ((119 - length msg mod 64) mod 64) 0
       @ map (\<lambda>i. ucast (drop_bit (8 * (7 - i)) (word_of_nat (8 * length msg) :: 64 word))) [0..<8]"

fun be_words :: "byte list \<Rightarrow> uint32 list" where
  "be_words (a # b # c # d # rest) =
     (push_bit 24 (ucast a) OR push_bit 16 (ucast b) OR push_bit 8 (ucast c) OR ucast d)
       # be_words rest"
| "be_words _ = []"

fun schedule :: "nat \<Rightarrow> uint32 list \<Rightarrow> uint32 list" where
  "schedule 0 w = w"
| "schedule (Suc n) w =
     (let t = length w
      in schedule n
           (w @ [ssig1 (w ! (t - 2)) + w ! (t - 7) + ssig0 (w ! (t - 15)) + w ! (t - 16)]))"

fun round256 :: "uint32 \<times> uint32 \<Rightarrow> uint32 list \<Rightarrow> uint32 list" where
  "round256 (k, w) [a, b, c, d, e, f, g, h] =
     (let t1 = h + bsig1 e + Ch e f g + k + w;
          t2 = bsig0 a + Maj a b c
      in [t1 + t2, a, b, c, d + t1, e, f, g])"
| "round256 _ v = v"

definition block256 :: "byte list \<Rightarrow> uint32 list \<Rightarrow> uint32 list" where
  "block256 p h = map2 (+) h (fold round256 (zip K256 (schedule 48 (be_words p))) h)"

fun blocks256 :: "nat \<Rightarrow> byte list \<Rightarrow> uint32 list \<Rightarrow> uint32 list" where
  "blocks256 0 p h = h"
| "blocks256 (Suc n) p h = blocks256 n (drop 64 p) (block256 (take 64 p) h)"

definition be_bytes :: "uint32 \<Rightarrow> byte list" where
  "be_bytes x = [ucast (drop_bit 24 x), ucast (drop_bit 16 x), ucast (drop_bit 8 x), ucast x]"

definition Sum256 :: "byte list \<Rightarrow> byte list" where
  "Sum256 msg =
     (let p = padding msg
      in concat (map be_bytes (blocks256 (length p div 64) p init256)))"

section \<open>\<^verbatim>\<open>net.IPMask.Size\<close> and \<^verbatim>\<open>net.CIDRMask\<close>\<close>

text \<open>
  The inner loop of \<^verbatim>\<open>simpleMaskLength\<close>:
  \<^verbatim>\<open>for v&0x80 != 0 { n++; v <<= 1 }\<close>.
\<close>

function count_ones :: "int \<Rightarrow> byte \<Rightarrow> int \<times> byte" where
  "count_ones n v = (if v AND 0x80 \<noteq> 0 then count_ones (n + 1) (push_bit 1 v) else (n, v))"
  by pat_completeness auto
termination
proof (relation "measure (\<lambda>(n, v). unat v)")
  show "wf (measure (\<lambda>(n, v). unat v))"
    by simp
next
  fix n :: int and v :: byte
  assume nz: "v AND 0x80 \<noteq> 0"
  have "bit v 7"
    using nz and_exp_eq_0_iff_not_bit [of v 7] by simp
  then have "bit (unat v) 7"
    by (simp add: bit_unsigned_iff)
  then have "odd (unat v div 2 ^ 7)"
    by (simp add: bit_iff_odd)
  then have lo: "128 \<le> unat v"
    by (cases "unat v < 128") auto
  have hi: "unat v < 256"
    using unsigned_less [of v, where 'a = nat] by simp
  have "unat (push_bit 1 v) = (2 * unat v) mod 256"
    by (simp add: push_bit_eq_mult unat_word_ariths mult.commute)
  moreover have "(2 * unat v) mod 256 = (2 * unat v - 256) mod 256"
    using lo by (simp add: le_mod_geq)
  moreover have "(2 * unat v - 256) mod 256 = 2 * unat v - 256"
    using hi by simp
  moreover have "2 * unat v - 256 < unat v"
    using lo hi by linarith
  ultimately have "unat (push_bit 1 v) < unat v"
    by simp
  then show "((n + 1, push_bit 1 v), (n, v)) \<in> measure (\<lambda>(n, v). unat v)"
    by simp
qed

text \<open>
  \<^verbatim>\<open>simpleMaskLength\<close>: bytes 0xff count eight ones each; the first other byte adds its
  leading ones, and what is left of it and every later byte must be zero, or the result
  is \<^verbatim>\<open>-1\<close>. The first argument is the running count \<^verbatim>\<open>n\<close>.
\<close>

fun simpleMaskLength_from :: "int \<Rightarrow> byte list \<Rightarrow> int" where
  "simpleMaskLength_from n [] = n"
| "simpleMaskLength_from n (v # rest) =
     (if v = 0xff then simpleMaskLength_from (n + 8) rest
      else case count_ones n v of
        (n', v') \<Rightarrow>
          if v' \<noteq> 0 then - 1
          else if list_ex (\<lambda>b. b \<noteq> 0) rest then - 1
          else n')"

definition simpleMaskLength :: "byte list \<Rightarrow> int" where
  "simpleMaskLength m = simpleMaskLength_from 0 m"

text \<open>\<^verbatim>\<open>IPMask.Size\<close>: \<^verbatim>\<open>(ones, bits)\<close>, or \<^verbatim>\<open>(0, 0)\<close> for a mask that is not canonical.\<close>

definition Size :: "byte list \<Rightarrow> int \<times> int" where
  "Size m =
     (let ones = simpleMaskLength m; bits = int (length m) * 8
      in if ones = - 1 then (0, 0) else (ones, bits))"

text \<open>The loop of \<^verbatim>\<open>net.CIDRMask\<close> over the \<^verbatim>\<open>l\<close> bytes of the mask, \<^verbatim>\<open>n\<close> ones left to write.\<close>

fun CIDRMask_loop :: "nat \<Rightarrow> nat \<Rightarrow> byte list" where
  "CIDRMask_loop 0 n = []"
| "CIDRMask_loop (Suc l) n =
     (if n \<ge> 8 then 0xff # CIDRMask_loop l (n - 8)
      else NOT (drop_bit n (0xff :: byte)) # CIDRMask_loop l 0)"

definition CIDRMask :: "int \<Rightarrow> int \<Rightarrow> byte list" where
  "CIDRMask ones bits =
     (if bits \<noteq> 8 * 4 \<and> bits \<noteq> 8 * 16 then []
      else if ones < 0 \<or> ones > bits then []
      else CIDRMask_loop (nat (bits div 8)) (nat ones))"

section \<open>The overlay address of a public key\<close>

text \<open>
  The loop of \<^verbatim>\<open>getOverlayAddr\<close>,
  \<^verbatim>\<open>for i := 1; i <= (size-bits)/8; i++ { ip[len(ip)-i] = hb[len(hb)-i] }\<close>,
  with \<^verbatim>\<open>n = (size-bits)/8\<close> (the source's
  \<^verbatim>\<open>size\<close> is \<open>sz\<close> below). An index out of range panics.
\<close>

function overlay_loop :: "int \<Rightarrow> int \<Rightarrow> byte list \<Rightarrow> byte list \<Rightarrow> panic + byte list" where
  "overlay_loop i n ip hb =
     (if i \<le> n then
        (if int (length ip) - i < 0 \<or> int (length ip) - i \<ge> int (length ip)
            \<or> int (length hb) - i < 0 \<or> int (length hb) - i \<ge> int (length hb)
         then Inl IndexOutOfRange
         else overlay_loop (i + 1) n
                (ip[nat (int (length ip) - i) := hb ! nat (int (length hb) - i)]) hb)
      else Inr ip)"
  by pat_completeness auto
termination
  by (relation "measure (\<lambda>(i, n, ip, hb). nat (n + 1 - i))") auto

text \<open>
  \<^verbatim>\<open>getOverlayAddr\<close>. The address bytes are copied (\<^verbatim>\<open>make\<close> and \<^verbatim>\<open>copy\<close>) before the loop
  writes to them, so the argument's own bytes are never written: a list value here.
  The division of Go truncates towards zero: \<open>sdiv\<close>.
\<close>

definition getOverlayAddr :: "IPNet \<Rightarrow> Key \<Rightarrow> panic + IPNet" where
  "getOverlayAddr ipnet pubkey =
     (case Size (net_Mask ipnet) of
        (bits, sz) \<Rightarrow>
          let ip = net_IP ipnet;
              hb = Sum256 pubkey
          in case overlay_loop 1 ((sz - bits) sdiv 8) ip hb of
               Inl e \<Rightarrow> Inl e
             | Inr ip' \<Rightarrow> Inr \<lparr>net_IP = ip', net_Mask = CIDRMask sz sz\<rparr>)"

section \<open>Errors\<close>

text \<open>
  An \<^verbatim>\<open>error\<close> value of Go: one for which \<^verbatim>\<open>os.IsNotExist\<close> holds, any other error of a
  collaborator, or an error wrapped with a message by \<^verbatim>\<open>errors.Wrap\<close> and
  \<^verbatim>\<open>errors.Wrapf\<close>. \<^verbatim>\<open>os.IsNotExist\<close> does not look inside such a wrapper.
\<close>

datatype error = NotExist string | Failure string | Wrapped string error

fun os_IsNotExist :: "error \<Rightarrow> bool" where
  "os_IsNotExist (NotExist m) = True"
| "os_IsNotExist (Failure m) = False"
| "os_IsNotExist (Wrapped m e) = False"

section \<open>Records of the program and of its collaborators\<close>

text \<open>\<^verbatim>\<open>time.Duration\<close> is a number of nanoseconds.\<close>

type_synonym Duration = int

definition Second :: Duration where
  "Second = 1000000000"

record UDPAddr =
  udp_IP :: "byte list"
  udp_Port :: int

record TCPAddr =
  tcp_IP :: "byte list"
  tcp_Port :: int

text \<open>The struct \<^verbatim>\<open>Peer\<close> of package \<^verbatim>\<open>wg\<close>.\<close>

record Peer =
  IP :: string
  Port :: int
  PublicKey :: Key
  PresharedKey :: Key
  KeepaliveInterval :: Duration

text \<open>
  \<^verbatim>\<open>wgtypes.PeerConfig\<close>, \<^verbatim>\<open>wgtypes.Config\<close>, \<^verbatim>\<open>wgtypes.Peer\<close> and \<^verbatim>\<open>wgtypes.Device\<close>
  (the fields the program reads or writes and the flags of the configuration).
  A pointer field is an option: \<open>None\<close> is \<^verbatim>\<open>nil\<close>, \<open>Some v\<close> a pointer to a variable
  that holds \<open>v\<close>.
\<close>

record PeerConfig =
  pc_PublicKey :: Key
  pc_Remove :: bool
  pc_UpdateOnly :: bool
  pc_PresharedKey :: "Key option"
  pc_Endpoint :: "UDPAddr option"
  pc_PersistentKeepaliveInterval :: "Duration option"
  pc_ReplaceAllowedIPs :: bool
  pc_AllowedIPs :: "IPNet list"

record Config =
  cf_PrivateKey :: "Key option"
  cf_ListenPort :: "int option"
  cf_FirewallMark :: "int option"
  cf_ReplacePeers :: bool
  cf_Peers :: "PeerConfig list"

record wgPeer =
  wp_PublicKey :: Key
  wp_PresharedKey :: Key
  wp_Endpoint :: "UDPAddr option"
  wp_PersistentKeepaliveInterval :: Duration
  wp_AllowedIPs :: "IPNet list"

record Device =
  dev_Name :: string
  dev_PrivateKey :: Key
  dev_PublicKey :: Key
  dev_ListenPort :: int
  dev_Peers :: "wgPeer list"

text \<open>\<^verbatim>\<open>netlink.Link\<close> (name and index of its attributes) and \<^verbatim>\<open>netlink.Route\<close>.\<close>

record Link =
  link_Name :: string
  link_Index :: int

datatype Scope = SCOPE_UNIVERSE | SCOPE_LINK

record Route =
  route_LinkIndex :: int
  route_Dst :: IPNet
  route_Scope :: Scope

record URL =
  url_Scheme :: string
  url_Host :: string
  url_Path :: string

section \<open>The collaborators\<close>

text \<open>
  The pure library functions the program calls and whose results it only passes on:
  \<^verbatim>\<open>net.ParseIP\<close> (\<^verbatim>\<open>nil\<close>, the empty list, for a string that is no address),
  \<^verbatim>\<open>net.IP.String\<close>, \<^verbatim>\<open>net.TCPAddr.String\<close>, \<^verbatim>\<open>wgtypes.ParseKey\<close>, \<^verbatim>\<open>wgtypes.Key.PublicKey\<close>
  and the \<^verbatim>\<open>gob\<close> decoding of a peer list. \<open>loopvar_per_iteration\<close> is the semantics of
  the \<^verbatim>\<open>for ... range\<close> variable the program is compiled with: Go before 1.22 has one
  variable for the whole loop, Go from 1.22 on a new one in each iteration.
\<close>

record Lib =
  ParseIP :: "string \<Rightarrow> byte list"
  IP_String :: "byte list \<Rightarrow> string"
  TCPAddr_String :: "TCPAddr \<Rightarrow> string"
  ParseKey :: "string \<Rightarrow> error + Key"
  Key_PublicKey :: "Key \<Rightarrow> Key"
  gob_Decode :: "byte list \<Rightarrow> error + Peer list"
  loopvar_per_iteration :: bool

text \<open>
  The handle \<^verbatim>\<open>*wgctrl.Client\<close>: the two operations the program calls, as functions on
  the state \<open>'w\<close> of the world outside the program.
\<close>

record 'w Client =
  Device :: "string \<Rightarrow> 'w \<Rightarrow> (error + Device) \<times> 'w"
  ConfigureDevice :: "string \<Rightarrow> Config \<Rightarrow> 'w \<Rightarrow> error option \<times> 'w"

text \<open>
  The package-level operations: \<^verbatim>\<open>wgctrl.New\<close>, \<^verbatim>\<open>netlink\<close>, the HTTP request of
  \<^verbatim>\<open>fetchPeers\<close> (the body read to its end, or the error) and \<^verbatim>\<open>rand.Int\<close>, whose result
  is a non-negative \<^verbatim>\<open>int\<close>: 63 bits.
\<close>

record 'w OS =
  wgctrl_New :: "'w \<Rightarrow> (error + 'w Client) \<times> 'w"
  netlink_LinkAdd :: "string \<Rightarrow> 'w \<Rightarrow> error option \<times> 'w"
  netlink_LinkByName :: "string \<Rightarrow> 'w \<Rightarrow> (error + Link) \<times> 'w"
  netlink_AddrReplace :: "Link \<Rightarrow> IPNet \<Rightarrow> 'w \<Rightarrow> error option \<times> 'w"
  netlink_LinkSetMTU :: "Link \<Rightarrow> int \<Rightarrow> 'w \<Rightarrow> error option \<times> 'w"
  netlink_LinkSetUp :: "Link \<Rightarrow> 'w \<Rightarrow> error option \<times> 'w"
  netlink_RouteAdd :: "Route \<Rightarrow> 'w \<Rightarrow> error option \<times> 'w"
  netlink_LinkDel :: "Link \<Rightarrow> 'w \<Rightarrow> error option \<times> 'w"
  http_Get :: "URL \<Rightarrow> 'w \<Rightarrow> (error + byte list) \<times> 'w"
  rand_Int :: "'w \<Rightarrow> 63 word \<times> 'w"

text \<open>
  Every call to a collaborator is recorded, in order, beside the world: what the program
  submits to the control plane is what this list holds.
\<close>

datatype call =
    Call_wgctrl_New
  | Call_Device string
  | Call_ConfigureDevice string Config
  | Call_LinkAdd string
  | Call_LinkByName string
  | Call_AddrReplace Link IPNet
  | Call_LinkSetMTU Link int
  | Call_LinkSetUp Link
  | Call_RouteAdd Route
  | Call_LinkDel Link
  | Call_http_Get URL
  | Call_rand_Int

record 'w sys =
  world :: 'w
  calls :: "call list"

definition invoke :: "call \<Rightarrow> ('w \<Rightarrow> 'r \<times> 'w) \<Rightarrow> 'w sys \<Rightarrow> 'r \<times> 'w sys" where
  "invoke c f \<sigma> =
     (case f (world \<sigma>) of (r, w') \<Rightarrow> (r, \<lparr>world = w', calls = calls \<sigma> @ [c]\<rparr>))"

section \<open>Package \<^verbatim>\<open>wg\<close>\<close>

record 'w State =
  iface :: string
  client :: "'w Client"
  OverlayNetwork :: IPNet
  OverlayAddr :: IPNet
  port :: int
  privateKey :: Key
  State_PublicKey :: Key

text \<open>
  \<^verbatim>\<open>Peer.toPeerConfig\<close>. The pointers \<^verbatim>\<open>&p.PresharedKey\<close> and \<^verbatim>\<open>&p.KeepaliveInterval\<close> point
  into the receiver; here they hold what the receiver holds when the method returns.
\<close>

definition toPeerConfig :: "Lib \<Rightarrow> Peer \<Rightarrow> IPNet \<Rightarrow> panic + PeerConfig" where
  "toPeerConfig lib p overlayNet =
     (case getOverlayAddr overlayNet (PublicKey p) of
        Inl e \<Rightarrow> Inl e
      | Inr addr \<Rightarrow>
          let config = \<lparr>pc_PublicKey = PublicKey p,
                        pc_Remove = False,
                        pc_UpdateOnly = False,
                        pc_PresharedKey = Some (PresharedKey p),
                        pc_Endpoint = None,
                        pc_PersistentKeepaliveInterval = None,
                        pc_ReplaceAllowedIPs = False,
                        pc_AllowedIPs = [addr]\<rparr>;
              config = (if Port p \<noteq> 0 \<and> IP p \<noteq> ''''
                        then config\<lparr>pc_Endpoint :=
                               Some \<lparr>udp_IP = ParseIP lib (IP p), udp_Port = Port p\<rparr>\<rparr>
                        else config);
              config = (if KeepaliveInterval p \<noteq> 0
                        then config\<lparr>pc_PersistentKeepaliveInterval := Some (KeepaliveInterval p)\<rparr>
                        else config)
          in Inr config)"

text \<open>
  \<^verbatim>\<open>New\<close>. The parameters \<^verbatim>\<open>iface\<close> and \<^verbatim>\<open>port\<close> of the source are \<open>ifname\<close> and
  \<open>lport\<close> here (the record fields have taken the names).
\<close>

definition New ::
  "Lib \<Rightarrow> 'w OS \<Rightarrow> string \<Rightarrow> int \<Rightarrow> IPNet \<Rightarrow> string \<Rightarrow> 'w sys
     \<Rightarrow> (panic + error + 'w State) \<times> 'w sys" where
  "New lib os ifname lport overlayNet privKey \<sigma> =
     (case invoke Call_wgctrl_New (wgctrl_New os) \<sigma> of
        (Inl err, \<sigma>') \<Rightarrow>
          (Inr (Inl (Wrapped ''Could not instantiate wireguard client'' err)), \<sigma>')
      | (Inr cl, \<sigma>') \<Rightarrow>
          (case ParseKey lib privKey of
             Inl err \<Rightarrow> (Inr (Inl (Wrapped ''Could not parse private key'' err)), \<sigma>')
           | Inr privateKey' \<Rightarrow>
               let pubKey = Key_PublicKey lib privateKey'
               in case getOverlayAddr overlayNet pubKey of
                    Inl e \<Rightarrow> (Inl e, \<sigma>')
                  | Inr addr \<Rightarrow>
                      (Inr (Inr \<lparr>iface = ifname,
                                 client = cl,
                                 OverlayNetwork = overlayNet,
                                 OverlayAddr = addr,
                                 port = lport,
                                 privateKey = privateKey',
                                 State_PublicKey = pubKey\<rparr>), \<sigma>')))"

definition GetOverlayAddress :: "'w State \<Rightarrow> Key \<Rightarrow> panic + IPNet" where
  "GetOverlayAddress s pubkey = getOverlayAddr (OverlayNetwork s) pubkey"

definition DownInterface :: "'w OS \<Rightarrow> 'w State \<Rightarrow> 'w sys \<Rightarrow> error option \<times> 'w sys" where
  "DownInterface os s \<sigma> =
     (case invoke (Call_Device (iface s)) (Device (client s) (iface s)) \<sigma> of
        (Inl err, \<sigma>1) \<Rightarrow>
          if os_IsNotExist err then (None, \<sigma>1) else (Some err, \<sigma>1)
      | (Inr dev, \<sigma>1) \<Rightarrow>
          (case invoke (Call_LinkByName (iface s)) (netlink_LinkByName os (iface s)) \<sigma>1 of
             (Inl err, \<sigma>2) \<Rightarrow> (Some err, \<sigma>2)
           | (Inr link, \<sigma>2) \<Rightarrow> invoke (Call_LinkDel link) (netlink_LinkDel os link) \<sigma>2))"

definition SetUpInterface :: "'w OS \<Rightarrow> 'w State \<Rightarrow> 'w sys \<Rightarrow> error option \<times> 'w sys" where
  "SetUpInterface os s \<sigma> =
     (case invoke (Call_LinkAdd (iface s)) (netlink_LinkAdd os (iface s)) \<sigma> of
        (Some err, \<sigma>1) \<Rightarrow> (Some (Wrapped (''Could not create interface '' @ iface s) err), \<sigma>1)
      | (None, \<sigma>1) \<Rightarrow>
     let cfg = \<lparr>cf_PrivateKey = Some (privateKey s),
                cf_ListenPort = (if port s = 0 then None else Some (port s)),
                cf_FirewallMark = None,
                cf_ReplacePeers = False,
                cf_Peers = []\<rparr>
     in
     (case invoke (Call_ConfigureDevice (iface s) cfg)
             (ConfigureDevice (client s) (iface s) cfg) \<sigma>1 of
        (Some err, \<sigma>2) \<Rightarrow>
          (Some (Wrapped (''Could not set wireguard configuration for '' @ iface s) err), \<sigma>2)
      | (None, \<sigma>2) \<Rightarrow>
     (case invoke (Call_LinkByName (iface s)) (netlink_LinkByName os (iface s)) \<sigma>2 of
        (Inl err, \<sigma>3) \<Rightarrow>
          (Some (Wrapped (''Could not get link information for '' @ iface s) err), \<sigma>3)
      | (Inr link, \<sigma>3) \<Rightarrow>
     (case invoke (Call_AddrReplace link (OverlayAddr s))
             (netlink_AddrReplace os link (OverlayAddr s)) \<sigma>3 of
        (Some err, \<sigma>4) \<Rightarrow> (Some (Wrapped (''Could not set address for '' @ iface s) err), \<sigma>4)
      | (None, \<sigma>4) \<Rightarrow>
     (case invoke (Call_LinkSetMTU link 1280) (netlink_LinkSetMTU os link 1280) \<sigma>4 of
        (Some err, \<sigma>5) \<Rightarrow> (Some (Wrapped (''Could not set MTU for '' @ iface s) err), \<sigma>5)
      | (None, \<sigma>5) \<Rightarrow>
     (case invoke (Call_LinkSetUp link) (netlink_LinkSetUp os link) \<sigma>5 of
        (Some err, \<sigma>6) \<Rightarrow> (Some (Wrapped (''Could not enable interface '' @ iface s) err), \<sigma>6)
      | (None, \<sigma>6) \<Rightarrow>
     let route = \<lparr>route_LinkIndex = link_Index link,
                  route_Dst = OverlayNetwork s,
                  route_Scope = SCOPE_LINK\<rparr>
     in
     (case invoke (Call_RouteAdd route) (netlink_RouteAdd os route) \<sigma>6 of
        (ignored, \<sigma>7) \<Rightarrow> (None, \<sigma>7))))))))"

text \<open>
  The loop of \<^verbatim>\<open>AddPeers\<close>: the configs of the peers whose key is not the node's own,
  appended in order.
\<close>

fun AddPeers_loop :: "Lib \<Rightarrow> 'w State \<Rightarrow> Peer list \<Rightarrow> PeerConfig list \<Rightarrow> panic + PeerConfig list" where
  "AddPeers_loop lib s [] config = Inr config"
| "AddPeers_loop lib s (p # peers) config =
     (if PublicKey p \<noteq> State_PublicKey s
      then case toPeerConfig lib p (OverlayNetwork s) of
             Inl e \<Rightarrow> Inl e
           | Inr c \<Rightarrow> AddPeers_loop lib s peers (config @ [c])
      else AddPeers_loop lib s peers config)"

text \<open>
  In the loop the receiver of \<^verbatim>\<open>toPeerConfig\<close> is the loop variable \<^verbatim>\<open>p\<close>, so the two
  pointers of a config point into that variable. With one variable for the whole loop,
  every pointer reads, when the device is configured, what the variable holds after the
  last iteration: the last element of \<^verbatim>\<open>peers\<close>.
\<close>

definition through_loopvar :: "Peer \<Rightarrow> PeerConfig \<Rightarrow> PeerConfig" where
  "through_loopvar p c =
     c\<lparr>pc_PresharedKey := map_option (\<lambda>k. PresharedKey p) (pc_PresharedKey c),
       pc_PersistentKeepaliveInterval :=
         map_option (\<lambda>d. KeepaliveInterval p) (pc_PersistentKeepaliveInterval c)\<rparr>"

definition AddPeers ::
  "Lib \<Rightarrow> 'w State \<Rightarrow> Peer list \<Rightarrow> 'w sys \<Rightarrow> (panic + error option) \<times> 'w sys" where
  "AddPeers lib s peers \<sigma> =
     (case AddPeers_loop lib s peers [] of
        Inl e \<Rightarrow> (Inl e, \<sigma>)
      | Inr config \<Rightarrow>
          let config = (if loopvar_per_iteration lib \<or> peers = [] then config
                        else map (through_loopvar (last peers)) config);
              cfg = \<lparr>cf_PrivateKey = None,
                     cf_ListenPort = None,
                     cf_FirewallMark = None,
                     cf_ReplacePeers = False,
                     cf_Peers = config\<rparr>
          in case invoke (Call_ConfigureDevice (iface s) cfg)
                    (ConfigureDevice (client s) (iface s) cfg) \<sigma> of
               (Some err, \<sigma>') \<Rightarrow>
                 (Inr (Some (Wrapped (''Could not set peers for '' @ iface s) err)), \<sigma>')
             | (None, \<sigma>') \<Rightarrow> (Inr None, \<sigma>'))"

definition fromWgtypesPeer :: "Lib \<Rightarrow> wgPeer \<Rightarrow> Peer" where
  "fromWgtypesPeer lib p =
     (let peer = \<lparr>IP = '''',
                   Port = 0,
                   PublicKey = wp_PublicKey p,
                   PresharedKey = wp_PresharedKey p,
                   KeepaliveInterval = wp_PersistentKeepaliveInterval p\<rparr>
      in case wp_Endpoint p of
           None \<Rightarrow> peer
         | Some ep \<Rightarrow> peer\<lparr>IP := IP_String lib (udp_IP ep), Port := udp_Port ep\<rparr>)"

definition GetPeers :: "Lib \<Rightarrow> 'w State \<Rightarrow> 'w sys \<Rightarrow> (error + Peer list) \<times> 'w sys" where
  "GetPeers lib s \<sigma> =
     (case invoke (Call_Device (iface s)) (Device (client s) (iface s)) \<sigma> of
        (Inl err, \<sigma>') \<Rightarrow> (Inl err, \<sigma>')
      | (Inr device, \<sigma>') \<Rightarrow> (Inr (map (fromWgtypesPeer lib) (dev_Peers device)), \<sigma>'))"

section \<open>The client: \<^verbatim>\<open>fetchPeers\<close> and \<^verbatim>\<open>updatePeers\<close>\<close>

text \<open>The messages written to the log are left out: they change nothing else.\<close>

definition fetchPeers :: "Lib \<Rightarrow> 'w OS \<Rightarrow> TCPAddr \<Rightarrow> 'w sys \<Rightarrow> (error + Peer list) \<times> 'w sys" where
  "fetchPeers lib os server \<sigma> =
     (let url = \<lparr>url_Scheme = ''http'', url_Host = TCPAddr_String lib server, url_Path = ''/''\<rparr>
      in case invoke (Call_http_Get url) (http_Get os url) \<sigma> of
           (Inl err, \<sigma>') \<Rightarrow> (Inl err, \<sigma>')
         | (Inr body, \<sigma>') \<Rightarrow>
             (case gob_Decode lib body of
                Inl err \<Rightarrow> (Inl err, \<sigma>')
              | Inr peers \<Rightarrow> (Inr peers, \<sigma>')))"

text \<open>
  The last line of \<^verbatim>\<open>updatePeers\<close>:
  \<^verbatim>\<open>time.NewTimer(time.Second * time.Duration(rand.Int()%20+20))\<close>; the duration of the
  timer sent on the channel is the result. The remainder of Go has the sign of the
  dividend: \<open>smod\<close>.
\<close>

definition nextDelay :: "'w OS \<Rightarrow> 'w sys \<Rightarrow> Duration \<times> 'w sys" where
  "nextDelay os \<sigma> =
     (case invoke Call_rand_Int (rand_Int os) \<sigma> of
        (r, \<sigma>') \<Rightarrow> (Second * (uint r smod 20 + 20), \<sigma>'))"

definition updatePeers ::
  "Lib \<Rightarrow> 'w OS \<Rightarrow> 'w State \<Rightarrow> TCPAddr \<Rightarrow> Key \<Rightarrow> 'w sys \<Rightarrow> (panic + Duration) \<times> 'w sys" where
  "updatePeers lib os wg serverAddr preshardKey \<sigma> =
     (case fetchPeers lib os serverAddr \<sigma> of
        (Inr peers, \<sigma>1) \<Rightarrow>
          let peers = map (\<lambda>p. p\<lparr>PresharedKey := preshardKey\<rparr>) peers
          in (case AddPeers lib wg peers \<sigma>1 of
                (Inl e, \<sigma>2) \<Rightarrow> (Inl e, \<sigma>2)
              | (Inr err, \<sigma>2) \<Rightarrow> (case nextDelay os \<sigma>2 of (d, \<sigma>3) \<Rightarrow> (Inr d, \<sigma>3)))
      | (Inl err, \<sigma>1) \<Rightarrow> (case nextDelay os \<sigma>1 of (d, \<sigma>3) \<Rightarrow> (Inr d, \<sigma>3)))"

section \<open>Notions the properties are stated with\<close>

text \<open>
  A network prefix: a base address and a mask of the same length, 4 or 16 bytes, the
  mask canonical (\<^verbatim>\<open>simpleMaskLength\<close> finds its ones followed by zeros). Its prefix
  length is the number of ones \<^verbatim>\<open>Size\<close> returns.
\<close>

definition network_prefix :: "IPNet \<Rightarrow> bool" where
  "network_prefix P \<longleftrightarrow>
     length (net_IP P) = length (net_Mask P)
     \<and> (length (net_Mask P) = 4 \<or> length (net_Mask P) = 16)
     \<and> simpleMaskLength (net_Mask P) \<noteq> - 1"

definition prefix_len :: "IPNet \<Rightarrow> nat" where
  "prefix_len P = nat (fst (Size (net_Mask P)))"

text \<open>The bits of an address, the most significant bit of the first byte first.\<close>

definition byte_bits :: "byte \<Rightarrow> bool list" where
  "byte_bits b = map (bit b) [7, 6, 5, 4, 3, 2, 1, 0]"

definition ip_bits :: "byte list \<Rightarrow> bool list" where
  "ip_bits ip = concat (map byte_bits ip)"

text \<open>
  The config \<open>c\<close> is the one made for the record \<open>p\<close>: its identity, its allowed
  address and its endpoint are those of \<open>p\<close>, and it does not ask for a removal.
\<close>

definition submits :: "Lib \<Rightarrow> IPNet \<Rightarrow> PeerConfig \<Rightarrow> Peer \<Rightarrow> bool" where
  "submits lib net c p \<longleftrightarrow>
     pc_PublicKey c = PublicKey p \<and> \<not> pc_Remove c \<and> \<not> pc_UpdateOnly c
     \<and> getOverlayAddr net (PublicKey p) = Inr (hd (pc_AllowedIPs c))
     \<and> length (pc_AllowedIPs c) = 1
     \<and> pc_Endpoint c = (if Port p \<noteq> 0 \<and> IP p \<noteq> ''''
                         then Some \<lparr>udp_IP = ParseIP lib (IP p), udp_Port = Port p\<rparr> else None)"

text \<open>The configurations submitted to the control plane by a list of calls, in order.\<close>

fun submitted_configs :: "call list \<Rightarrow> Config list" where
  "submitted_configs [] = []"
| "submitted_configs (Call_ConfigureDevice name cfg # cs) = cfg # submitted_configs cs"
| "submitted_configs (c # cs) = submitted_configs cs"

text \<open>
  Modelled from the spec: the tunnel control plane is a collaborator outside the
  repository. Its contract is that a submitted set of peer configurations is
  ``applied as upsert-by-identity'', ``an additive/overwrite merge keyed by identity,
  not a destructive replace'': each config is stored under its identity, over the table
  the device has, or over an empty table when the configuration asks for the peers to
  be replaced.
\<close>

definition upsert :: "PeerConfig \<Rightarrow> (Key \<rightharpoonup> PeerConfig) \<Rightarrow> (Key \<rightharpoonup> PeerConfig)" where
  "upsert pc t = t(pc_PublicKey pc \<mapsto> pc)"

definition apply_Config :: "Config \<Rightarrow> (Key \<rightharpoonup> PeerConfig) \<Rightarrow> (Key \<rightharpoonup> PeerConfig)" where
  "apply_Config cfg t = fold upsert (cf_Peers cfg) (if cf_ReplacePeers cfg then Map.empty else t)"

text \<open>
  The methods of \<^verbatim>\<open>State\<close> have a pointer receiver. None of them assigns to a field of
  the receiver, so a call leaves the \<^verbatim>\<open>State\<close> it is given and changes the world only.
\<close>

datatype State_op =
    Op_GetOverlayAddress Key
  | Op_DownInterface
  | Op_SetUpInterface
  | Op_AddPeers "Peer list"
  | Op_GetPeers

fun call_op :: "Lib \<Rightarrow> 'w OS \<Rightarrow> State_op \<Rightarrow> 'w State \<times> 'w sys \<Rightarrow> 'w State \<times> 'w sys" where
  "call_op lib os (Op_GetOverlayAddress k) (s, \<sigma>) = (s, \<sigma>)"
| "call_op lib os Op_DownInterface (s, \<sigma>) = (s, snd (DownInterface os s \<sigma>))"
| "call_op lib os Op_SetUpInterface (s, \<sigma>) = (s, snd (SetUpInterface os s \<sigma>))"
| "call_op lib os (Op_AddPeers peers) (s, \<sigma>) = (s, snd (AddPeers lib s peers \<sigma>))"
| "call_op lib os Op_GetPeers (s, \<sigma>) = (s, snd (GetPeers lib s \<sigma>))"

section \<open>Test doubles for the collaborators\<close>

text \<open>
  A world that counts the operations performed on it: no device exists, the directory
  cannot be reached, configuring succeeds.
\<close>

definition stub_Lib :: Lib where
  "stub_Lib =
     \<lparr>ParseIP = (\<lambda>s. if s = ''192.0.2.7''
                      then [0, 0, 0, 0, 0, 0, 0, 0, 0, 0, 0xff, 0xff, 192, 0, 2, 7] else []),
      IP_String = (\<lambda>ip. ''192.0.2.7''),
      TCPAddr_String = (\<lambda>a. ''10.1.2.3:8080''),
      ParseKey = (\<lambda>s. if length s = 44 then Inr (replicate 32 7) else Inl (Failure ''key'')),
      Key_PublicKey = (\<lambda>k. [61, 1] @ replicate 30 0),
      gob_Decode = (\<lambda>body. Inl (Failure ''gob'')),
      loopvar_per_iteration = False\<rparr>"

definition stub_Client :: "nat Client" where
  "stub_Client =
     \<lparr>Device = (\<lambda>name w. (Inl (NotExist name), Suc w)),
      ConfigureDevice = (\<lambda>name cfg w. (None, Suc w))\<rparr>"

definition stub_OS :: "nat OS" where
  "stub_OS =
     \<lparr>wgctrl_New = (\<lambda>w. (Inr stub_Client, Suc w)),
      netlink_LinkAdd = (\<lambda>name w. (None, Suc w)),
      netlink_LinkByName = (\<lambda>name w. (Inr \<lparr>link_Name = name, link_Index = 3\<rparr>, Suc w)),
      netlink_AddrReplace = (\<lambda>link addr w. (None, Suc w)),
      netlink_LinkSetMTU = (\<lambda>link mtu w. (None, Suc w)),
      netlink_LinkSetUp = (\<lambda>link w. (None, Suc w)),
      netlink_RouteAdd = (\<lambda>route w. (None, Suc w)),
      netlink_LinkDel = (\<lambda>link w. (None, Suc w)),
      http_Get = (\<lambda>url w. (Inl (Failure ''connection refused''), Suc w)),
      rand_Int = (\<lambda>w. (12345, Suc w))\<rparr>"

text \<open>The same, with a directory that answers with a given list of records.\<close>

definition dir_Lib :: "Peer list \<Rightarrow> Lib" where
  "dir_Lib peers = stub_Lib\<lparr>gob_Decode := (\<lambda>body. Inr peers)\<rparr>"

definition dir_OS :: "nat OS" where
  "dir_OS = stub_OS\<lparr>http_Get := (\<lambda>url w. (Inr [1, 2, 3], Suc w))\<rparr>"

definition net10 :: IPNet where
  "net10 = \<lparr>net_IP = [10, 0, 0, 0], net_Mask = [0xff, 0, 0, 0]\<rparr>"

definition key_A :: Key where
  "key_A = [61, 1] @ replicate 30 0"

definition key_B :: Key where
  "key_B = [2] @ replicate 31 0"

definition key_C :: Key where
  "key_C = [3] @ replicate 31 0"

definition stub_State :: "nat State" where
  "stub_State =
     \<lparr>iface = ''wg0'',
      client = stub_Client,
      OverlayNetwork = net10,
      OverlayAddr = \<lparr>net_IP = [10, 231, 60, 42], net_Mask = [0xff, 0xff, 0xff, 0xff]\<rparr>,
      port = 0,
      privateKey = replicate 32 7,
      State_PublicKey = key_A\<rparr>"

text \<open>
  Three peer records: the node itself, a peer with an endpoint and no shared secret, a
  peer whose address is no address.
\<close>

definition peer_A :: Peer where
  "peer_A = \<lparr>IP = '''', Port = 0, PublicKey = key_A, PresharedKey = zeroKey,
             KeepaliveInterval = 0\<rparr>"

definition peer_B :: Peer where
  "peer_B = \<lparr>IP = ''192.0.2.7'', Port = 51820, PublicKey = key_B, PresharedKey = zeroKey,
             KeepaliveInterval = 0\<rparr>"

definition peer_C :: Peer where
  "peer_C = \<lparr>IP = ''not-an-address'', Port = 51820, PublicKey = key_B,
             PresharedKey = zeroKey, KeepaliveInterval = 25 * Second\<rparr>"

definition sys0 :: "nat sys" where
  "sys0 = \<lparr>world = 0, calls = []\<rparr>"

section \<open>Lemmas: SHA-256 returns 32 bytes\<close>

lemma length_round256: "length v = 8 \<Longrightarrow> length (round256 kw v) = 8"
  by (cases kw) (auto simp: length_Suc_conv numeral_eq_Suc Let_def)

lemma length_fold_round256: "length v = 8 \<Longrightarrow> length (fold round256 kws v) = 8"
  by (induction kws arbitrary: v) (simp_all add: length_round256)

lemma length_block256: "length h = 8 \<Longrightarrow> length (block256 p h) = 8"
  by (simp add: block256_def length_fold_round256)

lemma length_blocks256: "length h = 8 \<Longrightarrow> length (blocks256 n p h) = 8"
  by (induction n arbitrary: p h) (simp_all add: length_block256)

lemma length_concat_be_bytes: "length (concat (map be_bytes ws)) = 4 * length ws"
  by (induction ws) (simp_all add: be_bytes_def)

lemma length_Sum256: "length (Sum256 msg) = 32"
  by (simp add: Sum256_def Let_def length_concat_be_bytes length_blocks256 init256_def)

section \<open>Lemmas: masks and the loop of \<^verbatim>\<open>getOverlayAddr\<close>\<close>

declare overlay_loop.simps [simp del] count_ones.simps [simp del]

lemma count_ones_ge: "count_ones n v = (n', v') \<Longrightarrow> n \<le> n'"
proof (induction n v rule: count_ones.induct)
  case (1 n v)
  show ?case
  proof (cases "v AND 0x80 \<noteq> 0")
    case True
    with "1.prems" have "count_ones (n + 1) (push_bit 1 v) = (n', v')"
      by (simp add: count_ones.simps [of n v])
    with "1.IH" True have "n + 1 \<le> n'" by blast
    then show ?thesis by simp
  next
    case False
    with "1.prems" show ?thesis by (simp add: count_ones.simps [of n v])
  qed
qed

lemma simpleMaskLength_from_ge:
  "simpleMaskLength_from n m \<noteq> - 1 \<Longrightarrow> n \<le> simpleMaskLength_from n m"
proof (induction m arbitrary: n)
  case Nil
  then show ?case by simp
next
  case (Cons v rest)
  show ?case
  proof (cases "v = 0xff")
    case True
    with Cons.prems have "simpleMaskLength_from (n + 8) rest \<noteq> - 1" by simp
    then have "n + 8 \<le> simpleMaskLength_from (n + 8) rest" by (rule Cons.IH)
    with True show ?thesis by simp
  next
    case False
    obtain n' v' where c: "count_ones n v = (n', v')" by (cases "count_ones n v")
    with False Cons.prems have "simpleMaskLength_from n (v # rest) = n'"
      by (simp split: if_splits)
    with count_ones_ge [OF c] show ?thesis by simp
  qed
qed

lemma simpleMaskLength_nonneg: "simpleMaskLength m \<noteq> - 1 \<Longrightarrow> 0 \<le> simpleMaskLength m"
  unfolding simpleMaskLength_def by (rule simpleMaskLength_from_ge)

lemma Size_network_prefix:
  "network_prefix P \<Longrightarrow>
     Size (net_Mask P) = (simpleMaskLength (net_Mask P), 8 * int (length (net_Mask P)))
     \<and> 0 \<le> simpleMaskLength (net_Mask P)"
  by (simp add: network_prefix_def Size_def Let_def simpleMaskLength_nonneg)

lemma overlay_loop_Inr:
  "1 \<le> i \<Longrightarrow> n \<le> int (length ip) \<Longrightarrow> n \<le> int (length hb) \<Longrightarrow>
     \<exists>ip'. overlay_loop i n ip hb = Inr ip' \<and> length ip' = length ip
       \<and> take (length ip - nat n) ip' = take (length ip - nat n) ip"
proof (induction i n ip hb rule: overlay_loop.induct)
  case (1 i n ip hb)
  show ?case
  proof (cases "i \<le> n")
    case False
    then show ?thesis by (simp add: overlay_loop.simps [of i n ip hb])
  next
    case True
    let ?ip = "ip[nat (int (length ip) - i) := hb ! nat (int (length hb) - i)]"
    from True "1.prems" have ok: "\<not> (int (length ip) - i < 0 \<or> int (length ip) - i \<ge> int (length ip)
            \<or> int (length hb) - i < 0 \<or> int (length hb) - i \<ge> int (length hb))"
      by auto
    from "1.prems" have "1 \<le> i + 1" "n \<le> int (length ?ip)" "n \<le> int (length hb)"
      by simp_all
    from "1.IH" [OF True ok this] obtain ip' where
      r: "overlay_loop (i + 1) n ?ip hb = Inr ip'" and l: "length ip' = length ?ip"
      and t: "take (length ?ip - nat n) ip' = take (length ?ip - nat n) ?ip"
      by blast
    from True "1.prems" have "length ip - nat n \<le> nat (int (length ip) - i)"
      by auto
    then have "take (length ip - nat n) ?ip = take (length ip - nat n) ip"
      by (rule take_update_cancel)
    with t have "take (length ip - nat n) ip' = take (length ip - nat n) ip"
      by simp
    moreover from r True ok have "overlay_loop i n ip hb = Inr ip'"
      by (simp add: overlay_loop.simps [of i n ip hb])
    ultimately show ?thesis using l by simp
  qed
qed

lemma length_byte_bits: "length (byte_bits b) = 8"
  by (simp add: byte_bits_def)

lemma ip_bits_take: "take (8 * k) (ip_bits xs) = ip_bits (take k xs)"
proof (induction xs arbitrary: k)
  case Nil
  then show ?case by (simp add: ip_bits_def)
next
  case (Cons x xs)
  show ?case
  proof (cases k)
    case 0
    then show ?thesis by (simp add: ip_bits_def)
  next
    case (Suc j)
    with Cons.IH [of j] show ?thesis
      by (simp add: ip_bits_def length_byte_bits)
  qed
qed

lemma ip_bits_prefix:
  assumes "take m ip' = take m ip" and "k \<le> 8 * m"
  shows "take k (ip_bits ip') = take k (ip_bits ip)"
proof -
  have "take k (ip_bits ip') = take k (take (8 * m) (ip_bits ip'))"
    using assms(2) by (simp add: min_def)
  also have "\<dots> = take k (ip_bits (take m ip))"
    using assms(1) by (simp add: ip_bits_take)
  also have "\<dots> = take k (take (8 * m) (ip_bits ip))"
    by (simp add: ip_bits_take)
  also have "\<dots> = take k (ip_bits ip)"
    using assms(2) by (simp add: min_def)
  finally show ?thesis .
qed

lemma CIDRMask_full:
  "CIDRMask 32 32 = replicate 4 0xff" "CIDRMask 128 128 = replicate 16 0xff"
  by (simp_all add: CIDRMask_def eval_nat_numeral)

lemma Size_full:
  "Size (replicate 4 0xff) = (32, 32)" "Size (replicate 16 0xff) = (128, 128)"
  by (simp_all add: Size_def simpleMaskLength_def eval_nat_numeral)

text \<open>
  Every mask \<^verbatim>\<open>net.CIDRMask\<close> makes is canonical, and \<^verbatim>\<open>Size\<close> gives back its number of ones:
  an address of 4 or 16 bytes with the mask of any prefix length is a network prefix.
\<close>

lemma count_ones_CIDR:
  assumes "k < 8"
  shows "count_ones n (NOT (drop_bit k (0xff :: byte))) = (n + int k, 0)"
proof -
  from assms consider "k = 0" | "k = 1" | "k = 2" | "k = 3" | "k = 4" | "k = 5" | "k = 6" | "k = 7"
    by linarith
  then show ?thesis
    by cases (simp_all add: count_ones.simps drop_bit_eq_div)
qed

lemma CIDR_byte_not_ff:
  assumes "k < 8"
  shows "NOT (drop_bit k (0xff :: byte)) \<noteq> 0xff"
proof -
  from assms consider "k = 0" | "k = 1" | "k = 2" | "k = 3" | "k = 4" | "k = 5" | "k = 6" | "k = 7"
    by linarith
  then show ?thesis
    by cases (simp_all add: drop_bit_eq_div)
qed

lemma CIDRMask_loop_0: "CIDRMask_loop l 0 = replicate l 0"
  by (induction l) simp_all

lemma simpleMaskLength_from_CIDR:
  "k \<le> 8 * l \<Longrightarrow> simpleMaskLength_from n (CIDRMask_loop l k) = n + int k"
proof (induction l arbitrary: n k)
  case 0
  then show ?case by simp
next
  case (Suc l)
  show ?case
  proof (cases "8 \<le> k")
    case True
    with Suc.prems have "k - 8 \<le> 8 * l" by simp
    from Suc.IH [OF this, of "n + 8"] True show ?thesis by simp
  next
    case False
    then have k: "k < 8" by simp
    show ?thesis
      using False CIDR_byte_not_ff [OF k] count_ones_CIDR [OF k, of n]
      by (simp add: CIDRMask_loop_0 list_ex_iff)
  qed
qed

lemma length_CIDRMask_loop: "length (CIDRMask_loop l k) = l"
  by (induction l arbitrary: k) simp_all

lemma network_prefix_CIDR:
  assumes "bits = 32 \<or> bits = 128" and "n \<le> bits" and "8 * length ip = bits"
  shows "network_prefix \<lparr>net_IP = ip, net_Mask = CIDRMask (int n) (int bits)\<rparr>
         \<and> prefix_len \<lparr>net_IP = ip, net_Mask = CIDRMask (int n) (int bits)\<rparr> = n"
proof -
  have m: "CIDRMask (int n) (int bits) = CIDRMask_loop (bits div 8) n"
    using assms(1,2) by (auto simp: CIDRMask_def)
  have s: "simpleMaskLength (CIDRMask_loop (bits div 8) n) = int n"
    using assms(1,2) simpleMaskLength_from_CIDR [of n "bits div 8" 0]
    by (auto simp: simpleMaskLength_def)
  show ?thesis
    using assms s
    by (auto simp: network_prefix_def prefix_len_def Size_def m length_CIDRMask_loop)
qed

lemma Sum256_key_A:
  "Sum256 key_A =
     [0x90, 0xb9, 0xd1, 0xbc, 0x64, 0x3a, 0xda, 0xf7, 0xdb, 0x67, 0x98, 0x32, 0x39, 0x75, 0x4d, 0x30,
      0xae, 0x5d, 0x28, 0x44, 0x19, 0xa1, 0xb6, 0x05, 0x84, 0x7f, 0xf2, 0xe6, 0x28, 0xe7, 0x3c, 0x2a]"
  by code_simp

lemma network_prefix_net10: "network_prefix net10"
  by code_simp

lemma Size_net10: "Size (net_Mask net10) = (8, 32)"
  by code_simp

lemma overlay_loop_3:
  "length hb = 32 \<Longrightarrow> overlay_loop 1 3 [a, b, c, d] hb = Inr [a, hb ! 29, hb ! 30, hb ! 31]"
  by (simp add: overlay_loop.simps)

lemma getOverlayAddr_key_A:
  "getOverlayAddr net10 key_A =
     Inr \<lparr>net_IP = [10, 231, 60, 42], net_Mask = [0xff, 0xff, 0xff, 0xff]\<rparr>"
proof -
  have "overlay_loop 1 3 (net_IP net10) (Sum256 key_A) =
          Inr [10, Sum256 key_A ! 29, Sum256 key_A ! 30, Sum256 key_A ! 31]"
    by (simp add: net10_def overlay_loop_3 length_Sum256)
  then have "overlay_loop 1 3 (net_IP net10) (Sum256 key_A) = Inr [10, 231, 60, 42]"
    by (simp add: Sum256_key_A)
  then show ?thesis
    using CIDRMask_full(1) by (simp add: getOverlayAddr_def Size_net10 eval_nat_numeral)
qed

text \<open>
  On a network prefix the loop does not panic, and it leaves the bytes before the last
  \<^verbatim>\<open>(size-bits)/8\<close> as they are.
\<close>

lemma getOverlayAddr_host_bytes:
  assumes "network_prefix P"
  shows "\<exists>ip'. getOverlayAddr P K =
                 Inr \<lparr>net_IP = ip',
                      net_Mask = CIDRMask (8 * int (length (net_IP P))) (8 * int (length (net_IP P)))\<rparr>
           \<and> length ip' = length (net_IP P)
           \<and> take (length (net_IP P)
                      - nat ((8 * int (length (net_IP P)) - simpleMaskLength (net_Mask P)) sdiv 8)) ip'
               = take (length (net_IP P)
                      - nat ((8 * int (length (net_IP P)) - simpleMaskLength (net_Mask P)) sdiv 8))
                   (net_IP P)"
proof -
  define ones where "ones = simpleMaskLength (net_Mask P)"
  define len where "len = length (net_IP P)"
  define n where "n = (8 * int len - ones) sdiv 8"
  from assms have sz: "Size (net_Mask P) = (ones, 8 * int len)" and nonneg: "0 \<le> ones"
    and len: "len = 4 \<or> len = 16"
    using Size_network_prefix [of P] by (simp_all add: ones_def len_def network_prefix_def)
  have n_le: "n \<le> int len"
    using nonneg by (auto simp: n_def signed_divide_int_def sgn_if)
  have n_hb: "n \<le> int (length (Sum256 K))"
    using n_le len by (auto simp: length_Sum256)
  from overlay_loop_Inr [of 1 n "net_IP P" "Sum256 K"] n_le n_hb obtain ip' where
    r: "overlay_loop 1 n (net_IP P) (Sum256 K) = Inr ip'" and l: "length ip' = len"
    and t: "take (len - nat n) ip' = take (len - nat n) (net_IP P)"
    by (auto simp: len_def)
  have "getOverlayAddr P K = Inr \<lparr>net_IP = ip', net_Mask = CIDRMask (8 * int len) (8 * int len)\<rparr>"
    using r by (simp add: getOverlayAddr_def sz n_def)
  with l t show ?thesis
    unfolding len_def n_def ones_def by blast
qed

lemma getOverlayAddr_returns:
  "network_prefix P \<Longrightarrow> \<exists>r. getOverlayAddr P K = Inr r"
  using getOverlayAddr_host_bytes [of P K] by blast

section \<open>The derived address lies in the prefix\<close>

text \<open>
  C3: for every network prefix \<open>P\<close> and every key \<open>K\<close>, \<^verbatim>\<open>getOverlayAddr\<close> returns an
  address of the length of the base address of \<open>P\<close> that agrees with that base address
  on the first \<open>prefix_len P\<close> bits, with a mask of that many bytes 0xff, for which
  \<^verbatim>\<open>Size\<close> gives 32 of 32 or 128 of 128 ones.
\<close>

theorem getOverlayAddr_within_prefix:
  assumes "network_prefix P"
  shows "\<exists>r. getOverlayAddr P K = Inr r
           \<and> length (net_IP r) = length (net_IP P)
           \<and> take (prefix_len P) (ip_bits (net_IP r)) = take (prefix_len P) (ip_bits (net_IP P))
           \<and> net_Mask r = replicate (length (net_IP P)) 0xff
           \<and> Size (net_Mask r) = (8 * int (length (net_IP P)), 8 * int (length (net_IP P)))"
proof -
  define ones where "ones = simpleMaskLength (net_Mask P)"
  define len where "len = length (net_IP P)"
  define n where "n = (8 * int len - ones) sdiv 8"
  from assms have sz: "Size (net_Mask P) = (ones, 8 * int len)" and nonneg: "0 \<le> ones"
    and len: "len = 4 \<or> len = 16"
    using Size_network_prefix [of P] by (simp_all add: ones_def len_def network_prefix_def)
  from getOverlayAddr_host_bytes [OF assms, of K] obtain ip' where
    res: "getOverlayAddr P K =
            Inr \<lparr>net_IP = ip', net_Mask = CIDRMask (8 * int len) (8 * int len)\<rparr>"
    and l: "length ip' = len"
    and t: "take (len - nat n) ip' = take (len - nat n) (net_IP P)"
    unfolding len_def n_def ones_def by blast
  have bits: "take (nat ones) (ip_bits ip') = take (nat ones) (ip_bits (net_IP P))"
  proof (cases "ones < 8 * int len")
    case True
    then have "nat ones \<le> 8 * (len - nat n)"
      using nonneg by (auto simp: n_def signed_divide_int_def sgn_if)
    with t show ?thesis
      by (rule ip_bits_prefix)
  next
    case False
    then have "nat n = 0"
      by (auto simp: n_def signed_divide_int_def sgn_if)
    with t l have "ip' = net_IP P"
      by (simp add: len_def)
    then show ?thesis
      by simp
  qed
  have pl: "prefix_len P = nat ones"
    by (simp add: prefix_len_def sz)
  from len have m: "CIDRMask (8 * int len) (8 * int len) = replicate len 0xff"
    and s: "Size (replicate len 0xff) = (8 * int len, 8 * int len)"
    using CIDRMask_full Size_full by auto
  show ?thesis
    using res l bits pl m s by (simp add: len_def)
qed

theorem getOverlayAddr_within_prefix_witness:
  "network_prefix net10
   \<and> (\<exists>r. getOverlayAddr net10 key_A = Inr r
           \<and> length (net_IP r) = length (net_IP net10)
           \<and> take (prefix_len net10) (ip_bits (net_IP r))
               = take (prefix_len net10) (ip_bits (net_IP net10))
           \<and> net_Mask r = replicate (length (net_IP net10)) 0xff
           \<and> Size (net_Mask r) = (8 * int (length (net_IP net10)), 8 * int (length (net_IP net10))))"
  using getOverlayAddr_within_prefix [OF network_prefix_net10, of key_A] network_prefix_net10
  by simp

section \<open>The address derived in 10.0.0.0/8\<close>

text \<open>
  C4, as the code has it: for the prefix 10.0.0.0/8 and a key whose SHA-256 digest ends
  in the byte 0x2A, \<^verbatim>\<open>getOverlayAddr\<close> returns the address whose first byte is 10 and
  whose other three bytes are the last three bytes of the digest, so its last byte is
  42, with the mask of /32.
\<close>

theorem getOverlayAddr_net10:
  assumes "last (Sum256 K) = 0x2A"
  shows "getOverlayAddr net10 K =
           Inr \<lparr>net_IP = [10, Sum256 K ! 29, Sum256 K ! 30, 0x2A],
                net_Mask = [0xff, 0xff, 0xff, 0xff]\<rparr>"
proof -
  have "Sum256 K \<noteq> []"
    using length_Sum256 [of K] by auto
  then have "Sum256 K ! 31 = last (Sum256 K)"
    by (simp add: last_conv_nth length_Sum256)
  with assms have "overlay_loop 1 3 (net_IP net10) (Sum256 K) = Inr [10, Sum256 K ! 29, Sum256 K ! 30, 0x2A]"
    by (simp add: net10_def overlay_loop_3 length_Sum256)
  then show ?thesis
    using CIDRMask_full(1) by (simp add: getOverlayAddr_def Size_net10 eval_nat_numeral)
qed

theorem getOverlayAddr_net10_witness:
  "last (Sum256 key_A) = 0x2A
   \<and> getOverlayAddr net10 key_A =
       Inr \<lparr>net_IP = [10, 231, 60, 42], net_Mask = [0xff, 0xff, 0xff, 0xff]\<rparr>"
proof -
  have h: "last (Sum256 key_A) = 0x2A"
    by (simp add: Sum256_key_A)
  from getOverlayAddr_net10 [OF h] h show ?thesis
    by (simp add: Sum256_key_A)
qed

text \<open>
  The digest of \<open>key_A\<close> ends in 0xe7, 0x3c, 0x2a: the address derived in 10.0.0.0/8 is
  10.231.60.42, not 10.0.0.42.
\<close>

theorem getOverlayAddr_net10_counterexample:
  "last (Sum256 key_A) = 0x2A
   \<and> getOverlayAddr net10 key_A \<noteq>
       Inr \<lparr>net_IP = [10, 0, 0, 42], net_Mask = [0xff, 0xff, 0xff, 0xff]\<rparr>"
  by (simp add: getOverlayAddr_key_A) (simp add: Sum256_key_A)

section \<open>Lemmas: \<^verbatim>\<open>toPeerConfig\<close>\<close>

lemma getOverlayAddr_key_B:
  "getOverlayAddr net10 key_B = Inr \<lparr>net_IP = [10, 212, 94, 49], net_Mask = [0xff, 0xff, 0xff, 0xff]\<rparr>"
  by code_simp

lemma toPeerConfig_Inl:
  "getOverlayAddr net (PublicKey p) = Inl e \<Longrightarrow> toPeerConfig lib p net = Inl e"
  by (simp add: toPeerConfig_def)

lemma toPeerConfig_Inr:
  "getOverlayAddr net (PublicKey p) = Inr addr \<Longrightarrow>
     toPeerConfig lib p net =
       Inr \<lparr>pc_PublicKey = PublicKey p,
            pc_Remove = False,
            pc_UpdateOnly = False,
            pc_PresharedKey = Some (PresharedKey p),
            pc_Endpoint = (if Port p \<noteq> 0 \<and> IP p \<noteq> ''''
                           then Some \<lparr>udp_IP = ParseIP lib (IP p), udp_Port = Port p\<rparr> else None),
            pc_PersistentKeepaliveInterval =
              (if KeepaliveInterval p \<noteq> 0 then Some (KeepaliveInterval p) else None),
            pc_ReplaceAllowedIPs = False,
            pc_AllowedIPs = [addr]\<rparr>"
  by (simp add: toPeerConfig_def Let_def)

lemma toPeerConfig_returns:
  "network_prefix net \<Longrightarrow> \<exists>cfg. toPeerConfig lib p net = Inr cfg"
  using getOverlayAddr_returns [of net "PublicKey p"] toPeerConfig_Inr [of net p _ lib]
  by blast

lemma toPeerConfig_InrD:
  "toPeerConfig lib p net = Inr cfg \<Longrightarrow> \<exists>addr. getOverlayAddr net (PublicKey p) = Inr addr"
  by (cases "getOverlayAddr net (PublicKey p)") (simp_all add: toPeerConfig_def)

lemma toPeerConfig_peer_B:
  "toPeerConfig stub_Lib peer_B net10 =
     Inr \<lparr>pc_PublicKey = key_B,
          pc_Remove = False,
          pc_UpdateOnly = False,
          pc_PresharedKey = Some zeroKey,
          pc_Endpoint = Some \<lparr>udp_IP = [0, 0, 0, 0, 0, 0, 0, 0, 0, 0, 0xff, 0xff, 192, 0, 2, 7],
                                 udp_Port = 51820\<rparr>,
          pc_PersistentKeepaliveInterval = None,
          pc_ReplaceAllowedIPs = False,
          pc_AllowedIPs = [\<lparr>net_IP = [10, 212, 94, 49], net_Mask = [0xff, 0xff, 0xff, 0xff]\<rparr>]\<rparr>"
  using toPeerConfig_Inr [of net10 peer_B _ stub_Lib] getOverlayAddr_key_B
  by (simp add: peer_B_def stub_Lib_def)

lemma toPeerConfig_peer_C:
  "toPeerConfig stub_Lib peer_C net10 =
     Inr \<lparr>pc_PublicKey = key_B,
          pc_Remove = False,
          pc_UpdateOnly = False,
          pc_PresharedKey = Some zeroKey,
          pc_Endpoint = Some \<lparr>udp_IP = [], udp_Port = 51820\<rparr>,
          pc_PersistentKeepaliveInterval = Some 25000000000,
          pc_ReplaceAllowedIPs = False,
          pc_AllowedIPs = [\<lparr>net_IP = [10, 212, 94, 49], net_Mask = [0xff, 0xff, 0xff, 0xff]\<rparr>]\<rparr>"
  using toPeerConfig_Inr [of net10 peer_C _ stub_Lib] getOverlayAddr_key_B
  by (simp add: peer_C_def stub_Lib_def Second_def)

lemma toPeerConfig_peer_A:
  "\<exists>addr. toPeerConfig stub_Lib peer_A net10 =
     Inr \<lparr>pc_PublicKey = key_A,
          pc_Remove = False,
          pc_UpdateOnly = False,
          pc_PresharedKey = Some zeroKey,
          pc_Endpoint = None,
          pc_PersistentKeepaliveInterval = None,
          pc_ReplaceAllowedIPs = False,
          pc_AllowedIPs = [addr]\<rparr>"
proof -
  from getOverlayAddr_returns [OF network_prefix_net10, of key_A]
  obtain addr where "getOverlayAddr net10 (PublicKey peer_A) = Inr addr"
    by (auto simp: peer_A_def)
  from toPeerConfig_Inr [OF this, of stub_Lib] show ?thesis
    by (auto simp: peer_A_def)
qed

section \<open>The endpoint of a peer config\<close>

text \<open>
  C6: \<^verbatim>\<open>toPeerConfig\<close> returns a config for every network prefix, and the config it
  returns has no endpoint exactly when the port of the record is 0 or its address string
  is empty; otherwise the endpoint holds what \<^verbatim>\<open>net.ParseIP\<close> makes of the address string,
  and the port of the record.
\<close>

theorem toPeerConfig_endpoint:
  "(network_prefix net \<longrightarrow> (\<exists>cfg. toPeerConfig lib p net = Inr cfg))
   \<and> (\<forall>cfg. toPeerConfig lib p net = Inr cfg \<longrightarrow>
         (pc_Endpoint cfg = None \<longleftrightarrow> Port p = 0 \<or> IP p = '''')
         \<and> (Port p \<noteq> 0 \<and> IP p \<noteq> '''' \<longrightarrow>
              pc_Endpoint cfg = Some \<lparr>udp_IP = ParseIP lib (IP p), udp_Port = Port p\<rparr>))"
proof (intro conjI impI allI)
  assume "network_prefix net"
  then show "\<exists>cfg. toPeerConfig lib p net = Inr cfg"
    by (rule toPeerConfig_returns)
next
  fix cfg
  assume r: "toPeerConfig lib p net = Inr cfg"
  then obtain addr where "getOverlayAddr net (PublicKey p) = Inr addr"
    using toPeerConfig_InrD by blast
  from toPeerConfig_Inr [OF this, of lib] r
  have e: "pc_Endpoint cfg = (if Port p \<noteq> 0 \<and> IP p \<noteq> ''''
             then Some \<lparr>udp_IP = ParseIP lib (IP p), udp_Port = Port p\<rparr> else None)"
    by auto
  show "pc_Endpoint cfg = None \<longleftrightarrow> Port p = 0 \<or> IP p = ''''"
    by (simp add: e)
  show "pc_Endpoint cfg = Some \<lparr>udp_IP = ParseIP lib (IP p), udp_Port = Port p\<rparr>"
    if "Port p \<noteq> 0 \<and> IP p \<noteq> ''''"
    using that by (simp add: e)
qed

theorem toPeerConfig_endpoint_witness:
  "network_prefix net10
   \<and> (\<exists>cfg. toPeerConfig stub_Lib peer_B net10 = Inr cfg
          \<and> Port peer_B \<noteq> 0 \<and> IP peer_B \<noteq> ''''
          \<and> pc_Endpoint cfg =
              Some \<lparr>udp_IP = ParseIP stub_Lib (IP peer_B), udp_Port = Port peer_B\<rparr>)
   \<and> (\<exists>cfg. toPeerConfig stub_Lib peer_A net10 = Inr cfg
          \<and> Port peer_A = 0 \<and> pc_Endpoint cfg = None)"
proof -
  obtain cfgB where b: "toPeerConfig stub_Lib peer_B net10 = Inr cfgB"
    using toPeerConfig_peer_B by blast
  obtain cfgA where a: "toPeerConfig stub_Lib peer_A net10 = Inr cfgA"
    using toPeerConfig_peer_A by blast
  have pb: "Port peer_B \<noteq> 0 \<and> IP peer_B \<noteq> ''''" and pa: "Port peer_A = 0"
    by (simp_all add: peer_A_def peer_B_def)
  from toPeerConfig_endpoint [of net10 stub_Lib peer_B] b pb
  have "pc_Endpoint cfgB = Some \<lparr>udp_IP = ParseIP stub_Lib (IP peer_B), udp_Port = Port peer_B\<rparr>"
    by blast
  moreover from toPeerConfig_endpoint [of net10 stub_Lib peer_A] a pa
  have "pc_Endpoint cfgA = None"
    by blast
  ultimately show ?thesis
    using a b pa pb network_prefix_net10 by blast
qed

text \<open>
  C9: for a record with a port other than 0 and a non-empty address string that
  \<^verbatim>\<open>net.ParseIP\<close> does not parse (it returns \<^verbatim>\<open>nil\<close>), the config \<^verbatim>\<open>toPeerConfig\<close> returns
  still has an endpoint, with the address \<^verbatim>\<open>nil\<close> and the port of the record.
\<close>

theorem toPeerConfig_unparsed_endpoint:
  assumes "Port p \<noteq> 0" and "IP p \<noteq> ''''" and "ParseIP lib (IP p) = []"
  shows "(network_prefix net \<longrightarrow> (\<exists>cfg. toPeerConfig lib p net = Inr cfg))
         \<and> (\<forall>cfg. toPeerConfig lib p net = Inr cfg \<longrightarrow>
               pc_Endpoint cfg = Some \<lparr>udp_IP = [], udp_Port = Port p\<rparr>)"
proof (intro conjI impI allI)
  assume "network_prefix net"
  then show "\<exists>cfg. toPeerConfig lib p net = Inr cfg"
    by (rule toPeerConfig_returns)
next
  fix cfg
  assume r: "toPeerConfig lib p net = Inr cfg"
  then obtain addr where "getOverlayAddr net (PublicKey p) = Inr addr"
    using toPeerConfig_InrD by blast
  from toPeerConfig_Inr [OF this, of lib] r assms
  show "pc_Endpoint cfg = Some \<lparr>udp_IP = [], udp_Port = Port p\<rparr>"
    by auto
qed

theorem toPeerConfig_unparsed_endpoint_witness:
  "Port peer_C \<noteq> 0 \<and> IP peer_C \<noteq> '''' \<and> ParseIP stub_Lib (IP peer_C) = []
   \<and> network_prefix net10
   \<and> (\<exists>cfg. toPeerConfig stub_Lib peer_C net10 = Inr cfg
          \<and> pc_Endpoint cfg = Some \<lparr>udp_IP = [], udp_Port = 51820\<rparr>)"
proof -
  have h: "Port peer_C \<noteq> 0" "IP peer_C \<noteq> ''''" "ParseIP stub_Lib (IP peer_C) = []"
    by (simp_all add: peer_C_def stub_Lib_def)
  obtain cfg where c: "toPeerConfig stub_Lib peer_C net10 = Inr cfg"
    using toPeerConfig_peer_C by blast
  from toPeerConfig_unparsed_endpoint [OF h, of net10] c
  have "pc_Endpoint cfg = Some \<lparr>udp_IP = [], udp_Port = Port peer_C\<rparr>"
    by blast
  then show ?thesis
    using h c network_prefix_net10 by (simp add: peer_C_def)
qed

section \<open>The preshared key of a peer config\<close>

text \<open>
  C5, as the code has it: the config \<^verbatim>\<open>toPeerConfig\<close> returns always has its preshared key
  set, to the key of the record, whatever that key is: for a record without a shared
  secret (the zero key) it is set to the zero key.
\<close>

theorem toPeerConfig_preshared_key:
  "(network_prefix net \<longrightarrow> (\<exists>cfg. toPeerConfig lib p net = Inr cfg))
   \<and> (\<forall>cfg. toPeerConfig lib p net = Inr cfg \<longrightarrow> pc_PresharedKey cfg = Some (PresharedKey p))"
proof (intro conjI impI allI)
  assume "network_prefix net"
  then show "\<exists>cfg. toPeerConfig lib p net = Inr cfg"
    by (rule toPeerConfig_returns)
next
  fix cfg
  assume r: "toPeerConfig lib p net = Inr cfg"
  then obtain addr where "getOverlayAddr net (PublicKey p) = Inr addr"
    using toPeerConfig_InrD by blast
  from toPeerConfig_Inr [OF this, of lib] r
  show "pc_PresharedKey cfg = Some (PresharedKey p)"
    by auto
qed

theorem toPeerConfig_preshared_key_witness:
  "network_prefix net10
   \<and> (\<exists>cfg. toPeerConfig stub_Lib peer_B net10 = Inr cfg
          \<and> PresharedKey peer_B = zeroKey \<and> pc_PresharedKey cfg = Some zeroKey)"
proof -
  obtain cfg where c: "toPeerConfig stub_Lib peer_B net10 = Inr cfg"
    using toPeerConfig_peer_B by blast
  from toPeerConfig_preshared_key [of net10 stub_Lib peer_B] c
  have "pc_PresharedKey cfg = Some (PresharedKey peer_B)"
    by blast
  then show ?thesis
    using c network_prefix_net10 by (simp add: peer_B_def)
qed

text \<open>
  The record \<open>peer_B\<close> has no shared secret; its config has the preshared key set (to the
  zero key), not unset.
\<close>

theorem toPeerConfig_preshared_key_counterexample:
  "PresharedKey peer_B = zeroKey
   \<and> map_sum id pc_PresharedKey (toPeerConfig stub_Lib peer_B net10) = Inr (Some zeroKey)
   \<and> map_sum id pc_PresharedKey (toPeerConfig stub_Lib peer_B net10) \<noteq> Inr None"
proof -
  have "PresharedKey peer_B = zeroKey"
    by (simp add: peer_B_def)
  moreover have "map_sum id pc_PresharedKey (toPeerConfig stub_Lib peer_B net10) = Inr (Some zeroKey)"
    by (simp add: toPeerConfig_peer_B)
  ultimately show ?thesis
    by simp
qed

section \<open>Lemmas: \<^verbatim>\<open>AddPeers\<close>\<close>

lemma invoke_eq:
  "invoke c f \<sigma> = (fst (f (world \<sigma>)), \<lparr>world = snd (f (world \<sigma>)), calls = calls \<sigma> @ [c]\<rparr>)"
  by (simp add: invoke_def split: prod.splits)

lemma toPeerConfig_submits:
  "toPeerConfig lib p net = Inr c \<Longrightarrow> submits lib net c p"
proof -
  assume r: "toPeerConfig lib p net = Inr c"
  then obtain addr where a: "getOverlayAddr net (PublicKey p) = Inr addr"
    using toPeerConfig_InrD by blast
  from toPeerConfig_Inr [OF a, of lib] r a show ?thesis
    by (auto simp: submits_def)
qed

lemma submits_through_loopvar:
  "submits lib net c p \<Longrightarrow> submits lib net (through_loopvar q c) p"
  by (simp add: submits_def through_loopvar_def)

lemma AddPeers_loop_Inr:
  "AddPeers_loop lib s peers acc = Inr config \<Longrightarrow>
     \<exists>cs. config = acc @ cs
       \<and> list_all2 (submits lib (OverlayNetwork s)) cs
            (filter (\<lambda>p. PublicKey p \<noteq> State_PublicKey s) peers)"
proof (induction peers arbitrary: acc)
  case Nil
  then show ?case by simp
next
  case (Cons p peers)
  show ?case
  proof (cases "PublicKey p \<noteq> State_PublicKey s")
    case False
    with Cons.prems have "AddPeers_loop lib s peers acc = Inr config" by simp
    from Cons.IH [OF this] False show ?thesis by simp
  next
    case True
    with Cons.prems obtain c where c: "toPeerConfig lib p (OverlayNetwork s) = Inr c"
      and r: "AddPeers_loop lib s peers (acc @ [c]) = Inr config"
      by (auto split: sum.splits)
    from Cons.IH [OF r] obtain cs where "config = (acc @ [c]) @ cs"
      and "list_all2 (submits lib (OverlayNetwork s)) cs
             (filter (\<lambda>p. PublicKey p \<noteq> State_PublicKey s) peers)"
      by blast
    with True toPeerConfig_submits [OF c] show ?thesis
      by (intro exI [of _ "c # cs"]) simp
  qed
qed

lemma AddPeers_loop_returns:
  "(\<forall>p\<in>set peers. PublicKey p \<noteq> State_PublicKey s \<longrightarrow>
       (\<exists>addr. getOverlayAddr (OverlayNetwork s) (PublicKey p) = Inr addr)) \<Longrightarrow>
     \<exists>config. AddPeers_loop lib s peers acc = Inr config"
proof (induction peers arbitrary: acc)
  case Nil
  then show ?case by simp
next
  case (Cons p peers)
  show ?case
  proof (cases "PublicKey p \<noteq> State_PublicKey s")
    case False
    with Cons show ?thesis by simp
  next
    case True
    with Cons.prems obtain addr where "getOverlayAddr (OverlayNetwork s) (PublicKey p) = Inr addr"
      by auto
    from toPeerConfig_Inr [OF this, of lib] obtain c where
      "toPeerConfig lib p (OverlayNetwork s) = Inr c" by blast
    with True Cons show ?thesis by simp
  qed
qed

lemma AddPeers_Inl:
  "AddPeers_loop lib s peers [] = Inl e \<Longrightarrow> AddPeers lib s peers \<sigma> = (Inl e, \<sigma>)"
  by (simp add: AddPeers_def)

lemma AddPeers_Inr:
  assumes "AddPeers_loop lib s peers [] = Inr config0"
  shows "\<exists>config r.
           AddPeers lib s peers \<sigma> =
             (Inr r,
              \<lparr>world = snd (ConfigureDevice (client s) (iface s)
                         \<lparr>cf_PrivateKey = None, cf_ListenPort = None, cf_FirewallMark = None,
                          cf_ReplacePeers = False, cf_Peers = config\<rparr> (world \<sigma>)),
               calls = calls \<sigma> @
                 [Call_ConfigureDevice (iface s)
                    \<lparr>cf_PrivateKey = None, cf_ListenPort = None, cf_FirewallMark = None,
                     cf_ReplacePeers = False, cf_Peers = config\<rparr>]\<rparr>)
           \<and> list_all2 (submits lib (OverlayNetwork s)) config
                (filter (\<lambda>p. PublicKey p \<noteq> State_PublicKey s) peers)"
proof -
  define config where "config =
    (if loopvar_per_iteration lib \<or> peers = [] then config0
     else map (through_loopvar (last peers)) config0)"
  from AddPeers_loop_Inr [OF assms]
  have l0: "list_all2 (submits lib (OverlayNetwork s)) config0
              (filter (\<lambda>p. PublicKey p \<noteq> State_PublicKey s) peers)"
    by simp
  then have l: "list_all2 (submits lib (OverlayNetwork s)) config
              (filter (\<lambda>p. PublicKey p \<noteq> State_PublicKey s) peers)"
    by (auto simp: config_def list_all2_map1 elim!: list_all2_mono submits_through_loopvar)
  have "\<exists>r. AddPeers lib s peers \<sigma> =
             (Inr r,
              \<lparr>world = snd (ConfigureDevice (client s) (iface s)
                         \<lparr>cf_PrivateKey = None, cf_ListenPort = None, cf_FirewallMark = None,
                          cf_ReplacePeers = False, cf_Peers = config\<rparr> (world \<sigma>)),
               calls = calls \<sigma> @
                 [Call_ConfigureDevice (iface s)
                    \<lparr>cf_PrivateKey = None, cf_ListenPort = None, cf_FirewallMark = None,
                     cf_ReplacePeers = False, cf_Peers = config\<rparr>]\<rparr>)"
    using assms
    by (cases "fst (ConfigureDevice (client s) (iface s)
                         \<lparr>cf_PrivateKey = None, cf_ListenPort = None, cf_FirewallMark = None,
                          cf_ReplacePeers = False, cf_Peers = config\<rparr> (world \<sigma>))")
       (simp_all add: AddPeers_def invoke_eq config_def Let_def)
  with l show ?thesis by blast
qed

lemma list_all2_set1: "list_all2 R xs ys \<Longrightarrow> x \<in> set xs \<Longrightarrow> \<exists>y\<in>set ys. R x y"
  by (induction rule: list_all2_induct) auto

lemma AddPeers_panic_or_submit:
  "(\<exists>e. AddPeers_loop lib s peers [] = Inl e \<and> AddPeers lib s peers \<sigma> = (Inl e, \<sigma>))
   \<or> (\<exists>config r.
         AddPeers lib s peers \<sigma> =
           (Inr r,
            \<lparr>world = snd (ConfigureDevice (client s) (iface s)
                       \<lparr>cf_PrivateKey = None, cf_ListenPort = None, cf_FirewallMark = None,
                        cf_ReplacePeers = False, cf_Peers = config\<rparr> (world \<sigma>)),
             calls = calls \<sigma> @
               [Call_ConfigureDevice (iface s)
                  \<lparr>cf_PrivateKey = None, cf_ListenPort = None, cf_FirewallMark = None,
                   cf_ReplacePeers = False, cf_Peers = config\<rparr>]\<rparr>)
         \<and> list_all2 (submits lib (OverlayNetwork s)) config
              (filter (\<lambda>p. PublicKey p \<noteq> State_PublicKey s) peers))"
proof (cases "AddPeers_loop lib s peers []")
  case (Inl e)
  then show ?thesis using AddPeers_Inl [OF Inl, of \<sigma>] by blast
next
  case (Inr config0)
  from AddPeers_Inr [OF this, of \<sigma>] show ?thesis by blast
qed

lemma key_B_neq_key_A: "key_B \<noteq> key_A"
  by (simp add: key_A_def key_B_def)

lemma fold_upsert_other:
  "k \<notin> pc_PublicKey ` set pcs \<Longrightarrow> fold upsert pcs t k = t k"
  by (induction pcs arbitrary: t) (auto simp: upsert_def)

lemma fold_upsert_dom: "dom t \<subseteq> dom (fold upsert pcs t)"
proof (induction pcs arbitrary: t)
  case Nil
  then show ?case by simp
next
  case (Cons pc pcs)
  have "dom t \<subseteq> dom (upsert pc t)"
    by (auto simp: upsert_def)
  also have "\<dots> \<subseteq> dom (fold upsert pcs (upsert pc t))"
    by (rule Cons.IH)
  finally show ?case by simp
qed

lemma AddPeers_stub:
  "AddPeers stub_Lib stub_State [peer_A, peer_B] sys0 =
     (Inr None,
      \<lparr>world = 1,
       calls = [Call_ConfigureDevice ''wg0''
                  \<lparr>cf_PrivateKey = None, cf_ListenPort = None, cf_FirewallMark = None,
                   cf_ReplacePeers = False,
                   cf_Peers =
                     [\<lparr>pc_PublicKey = key_B,
                       pc_Remove = False,
                       pc_UpdateOnly = False,
                       pc_PresharedKey = Some zeroKey,
                       pc_Endpoint =
                         Some \<lparr>udp_IP = [0, 0, 0, 0, 0, 0, 0, 0, 0, 0, 0xff, 0xff, 192, 0, 2, 7],
                               udp_Port = 51820\<rparr>,
                       pc_PersistentKeepaliveInterval = None,
                       pc_ReplaceAllowedIPs = False,
                       pc_AllowedIPs =
                         [\<lparr>net_IP = [10, 212, 94, 49],
                           net_Mask = [0xff, 0xff, 0xff, 0xff]\<rparr>]\<rparr>]\<rparr>]\<rparr>)"
proof -
  have a: "PublicKey peer_A = State_PublicKey stub_State"
    and b: "PublicKey peer_B \<noteq> State_PublicKey stub_State"
    and n: "OverlayNetwork stub_State = net10"
    using key_B_neq_key_A by (simp_all add: peer_A_def peer_B_def stub_State_def)
  have "AddPeers_loop stub_Lib stub_State [peer_A, peer_B] [] =
          Inr [\<lparr>pc_PublicKey = key_B,
                       pc_Remove = False,
                       pc_UpdateOnly = False,
                       pc_PresharedKey = Some zeroKey,
                       pc_Endpoint =
                         Some \<lparr>udp_IP = [0, 0, 0, 0, 0, 0, 0, 0, 0, 0, 0xff, 0xff, 192, 0, 2, 7],
                               udp_Port = 51820\<rparr>,
                       pc_PersistentKeepaliveInterval = None,
                       pc_ReplaceAllowedIPs = False,
                       pc_AllowedIPs =
                         [\<lparr>net_IP = [10, 212, 94, 49],
                           net_Mask = [0xff, 0xff, 0xff, 0xff]\<rparr>]\<rparr>]"
    by (simp add: a b n toPeerConfig_peer_B)
  then show ?thesis
    by (simp add: AddPeers_def invoke_eq through_loopvar_def)
       (simp add: stub_State_def stub_Client_def stub_Lib_def sys0_def peer_B_def)
qed

section \<open>Reconciliation leaves the node itself out\<close>

text \<open>
  C1: whatever the \<^verbatim>\<open>State\<close> and the list of peer records, no configuration that \<^verbatim>\<open>AddPeers\<close>
  submits to the control plane holds a peer config whose public key is the node's own.
  For a list of two records, one with the node's own key and one of another peer \<open>P\<close>
  (whose overlay address is \<open>addr\<close>), \<^verbatim>\<open>AddPeers\<close> makes exactly one call, which submits
  exactly one peer config: that of \<open>P\<close>.
\<close>

theorem AddPeers_excludes_self:
  "\<exists>new. calls (snd (AddPeers lib s peers \<sigma>)) = calls \<sigma> @ new
     \<and> (\<forall>cfg\<in>set (submitted_configs new). \<forall>pc\<in>set (cf_Peers cfg).
            pc_PublicKey pc \<noteq> State_PublicKey s)
     \<and> (\<forall>me P addr.
            PublicKey me = State_PublicKey s \<longrightarrow> PublicKey P \<noteq> State_PublicKey s \<longrightarrow>
            peers = [me, P] \<or> peers = [P, me] \<longrightarrow>
            getOverlayAddr (OverlayNetwork s) (PublicKey P) = Inr addr \<longrightarrow>
            (\<exists>c. new = [Call_ConfigureDevice (iface s)
                          \<lparr>cf_PrivateKey = None, cf_ListenPort = None, cf_FirewallMark = None,
                           cf_ReplacePeers = False, cf_Peers = [c]\<rparr>]
                \<and> pc_PublicKey c = PublicKey P \<and> pc_AllowedIPs c = [addr] \<and> \<not> pc_Remove c))"
proof -
  let ?others = "filter (\<lambda>p. PublicKey p \<noteq> State_PublicKey s) peers"
  from AddPeers_panic_or_submit [of lib s peers \<sigma>] show ?thesis
  proof (elim disjE exE conjE)
    fix e
    assume l: "AddPeers_loop lib s peers [] = Inl e" and r: "AddPeers lib s peers \<sigma> = (Inl e, \<sigma>)"
    have "False" if "PublicKey me = State_PublicKey s" "PublicKey P \<noteq> State_PublicKey s"
        "peers = [me, P] \<or> peers = [P, me]"
        "getOverlayAddr (OverlayNetwork s) (PublicKey P) = Inr addr" for me P addr
    proof -
      from that have "\<forall>p\<in>set peers. PublicKey p \<noteq> State_PublicKey s \<longrightarrow>
          (\<exists>a. getOverlayAddr (OverlayNetwork s) (PublicKey p) = Inr a)"
        by auto
      from AddPeers_loop_returns [OF this, of lib "[]"] l show False
        by simp
    qed
    with r show ?thesis
      by (intro exI [of _ "[]"]) auto
  next
    fix config r
    let ?cfg = "\<lparr>cf_PrivateKey = None, cf_ListenPort = None, cf_FirewallMark = None,
                  cf_ReplacePeers = False, cf_Peers = config\<rparr>"
    assume a: "AddPeers lib s peers \<sigma> =
           (Inr r, \<lparr>world = snd (ConfigureDevice (client s) (iface s) ?cfg (world \<sigma>)),
             calls = calls \<sigma> @ [Call_ConfigureDevice (iface s) ?cfg]\<rparr>)"
      and l: "list_all2 (submits lib (OverlayNetwork s)) config ?others"
    have self: "pc_PublicKey pc \<noteq> State_PublicKey s" if "pc \<in> set config" for pc
    proof -
      from list_all2_set1 [OF l that] obtain p where "p \<in> set ?others"
        and "submits lib (OverlayNetwork s) pc p"
        by blast
      then show ?thesis
        by (simp add: submits_def)
    qed
    have two: "\<exists>c. config = [c] \<and> pc_PublicKey c = PublicKey P \<and> pc_AllowedIPs c = [addr]
                 \<and> \<not> pc_Remove c"
      if "PublicKey me = State_PublicKey s" "PublicKey P \<noteq> State_PublicKey s"
        "peers = [me, P] \<or> peers = [P, me]"
        "getOverlayAddr (OverlayNetwork s) (PublicKey P) = Inr addr" for me P addr
    proof -
      from that have "?others = [P]"
        by auto
      with l obtain c where c: "config = [c]" and s: "submits lib (OverlayNetwork s) c P"
        by (auto simp: list_all2_Cons2)
      from s that(4) have "hd (pc_AllowedIPs c) = addr" "length (pc_AllowedIPs c) = 1"
        by (simp_all add: submits_def)
      then have "pc_AllowedIPs c = [addr]"
        by (cases "pc_AllowedIPs c") simp_all
      with c s show ?thesis
        by (simp add: submits_def)
    qed
    show ?thesis
    proof (intro exI [of _ "[Call_ConfigureDevice (iface s) ?cfg]"] conjI)
      show "calls (snd (AddPeers lib s peers \<sigma>)) = calls \<sigma> @ [Call_ConfigureDevice (iface s) ?cfg]"
        by (simp add: a)
      show "\<forall>cfg\<in>set (submitted_configs [Call_ConfigureDevice (iface s) ?cfg]).
              \<forall>pc\<in>set (cf_Peers cfg). pc_PublicKey pc \<noteq> State_PublicKey s"
        using self by simp
      show "\<forall>me P addr.
            PublicKey me = State_PublicKey s \<longrightarrow> PublicKey P \<noteq> State_PublicKey s \<longrightarrow>
            peers = [me, P] \<or> peers = [P, me] \<longrightarrow>
            getOverlayAddr (OverlayNetwork s) (PublicKey P) = Inr addr \<longrightarrow>
            (\<exists>c. [Call_ConfigureDevice (iface s) ?cfg] = [Call_ConfigureDevice (iface s)
                          \<lparr>cf_PrivateKey = None, cf_ListenPort = None, cf_FirewallMark = None,
                           cf_ReplacePeers = False, cf_Peers = [c]\<rparr>]
                \<and> pc_PublicKey c = PublicKey P \<and> pc_AllowedIPs c = [addr] \<and> \<not> pc_Remove c)"
        using two by auto
    qed
  qed
qed

theorem AddPeers_excludes_self_witness:
  "PublicKey peer_A = State_PublicKey stub_State
   \<and> PublicKey peer_B \<noteq> State_PublicKey stub_State
   \<and> getOverlayAddr (OverlayNetwork stub_State) (PublicKey peer_B) =
       Inr \<lparr>net_IP = [10, 212, 94, 49], net_Mask = [0xff, 0xff, 0xff, 0xff]\<rparr>
   \<and> (\<exists>new c. calls (snd (AddPeers stub_Lib stub_State [peer_A, peer_B] sys0)) = calls sys0 @ new
         \<and> new = [Call_ConfigureDevice (iface stub_State)
                     \<lparr>cf_PrivateKey = None, cf_ListenPort = None, cf_FirewallMark = None,
                      cf_ReplacePeers = False, cf_Peers = [c]\<rparr>]
         \<and> pc_PublicKey c = key_B
         \<and> pc_PublicKey c \<noteq> State_PublicKey stub_State
         \<and> pc_AllowedIPs c = [\<lparr>net_IP = [10, 212, 94, 49], net_Mask = [0xff, 0xff, 0xff, 0xff]\<rparr>])"
proof -
  have h: "PublicKey peer_A = State_PublicKey stub_State"
    "PublicKey peer_B \<noteq> State_PublicKey stub_State"
    "getOverlayAddr (OverlayNetwork stub_State) (PublicKey peer_B) =
       Inr \<lparr>net_IP = [10, 212, 94, 49], net_Mask = [0xff, 0xff, 0xff, 0xff]\<rparr>"
    using key_B_neq_key_A getOverlayAddr_key_B
    by (simp_all add: peer_A_def peer_B_def stub_State_def)
  have d: "[peer_A, peer_B] = [peer_A, peer_B] \<or> [peer_A, peer_B] = [peer_B, peer_A]"
    by simp
  from AddPeers_excludes_self [of stub_Lib stub_State "[peer_A, peer_B]" sys0]
  obtain new where all: "calls (snd (AddPeers stub_Lib stub_State [peer_A, peer_B] sys0)) = calls sys0 @ new
     \<and> (\<forall>cfg\<in>set (submitted_configs new). \<forall>pc\<in>set (cf_Peers cfg).
            pc_PublicKey pc \<noteq> State_PublicKey stub_State)
     \<and> (\<forall>me P addr.
            PublicKey me = State_PublicKey stub_State \<longrightarrow>
            PublicKey P \<noteq> State_PublicKey stub_State \<longrightarrow>
            [peer_A, peer_B] = [me, P] \<or> [peer_A, peer_B] = [P, me] \<longrightarrow>
            getOverlayAddr (OverlayNetwork stub_State) (PublicKey P) = Inr addr \<longrightarrow>
            (\<exists>c. new = [Call_ConfigureDevice (iface stub_State)
                          \<lparr>cf_PrivateKey = None, cf_ListenPort = None, cf_FirewallMark = None,
                           cf_ReplacePeers = False, cf_Peers = [c]\<rparr>]
                \<and> pc_PublicKey c = PublicKey P \<and> pc_AllowedIPs c = [addr] \<and> \<not> pc_Remove c))" ..
  note n = all [THEN conjunct1] and two = all [THEN conjunct2, THEN conjunct2, rule_format]
  from two [OF h(1) h(2) d h(3)]
  obtain c where c: "new = [Call_ConfigureDevice (iface stub_State)
                          \<lparr>cf_PrivateKey = None, cf_ListenPort = None, cf_FirewallMark = None,
                           cf_ReplacePeers = False, cf_Peers = [c]\<rparr>]
      \<and> pc_PublicKey c = PublicKey peer_B
      \<and> pc_AllowedIPs c = [\<lparr>net_IP = [10, 212, 94, 49], net_Mask = [0xff, 0xff, 0xff, 0xff]\<rparr>]
      \<and> \<not> pc_Remove c" ..
  have "pc_PublicKey c = key_B" "pc_PublicKey c \<noteq> State_PublicKey stub_State"
    using c h(2) by (simp_all add: peer_B_def)
  with n c h show ?thesis
    by (intro conjI exI [of _ new] exI [of _ c]) simp_all
qed

section \<open>Lemmas: panics do not depend on the key, the delay\<close>

lemma overlay_loop_Inl:
  "1 \<le> i \<Longrightarrow> i \<le> n \<Longrightarrow> int (length ip) < n \<or> int (length hb) < n \<Longrightarrow>
     overlay_loop i n ip hb = Inl IndexOutOfRange"
proof (induction i n ip hb rule: overlay_loop.induct)
  case (1 i n ip hb)
  let ?bad = "int (length ip) - i < 0 \<or> int (length ip) - i \<ge> int (length ip)
            \<or> int (length hb) - i < 0 \<or> int (length hb) - i \<ge> int (length hb)"
  let ?ip = "ip[nat (int (length ip) - i) := hb ! nat (int (length hb) - i)]"
  show ?case
  proof (cases ?bad)
    case True
    with "1.prems" show ?thesis
      by (simp add: overlay_loop.simps [of i n ip hb])
  next
    case False
    with "1.prems" have lt: "i + 1 \<le> n"
      by auto
    from "1.prems" have "1 \<le> i + 1" and "int (length ?ip) < n \<or> int (length hb) < n"
      by simp_all
    from "1.IH" [OF "1.prems"(2) False this(1) lt this(2)]
    have "overlay_loop (i + 1) n ?ip hb = Inl IndexOutOfRange" .
    with False "1.prems" show ?thesis
      by (simp add: overlay_loop.simps [of i n ip hb])
  qed
qed

lemma overlay_loop_any_digest:
  assumes "overlay_loop 1 n ip hb = Inr r" and "length hb' = length hb"
  shows "\<exists>r'. overlay_loop 1 n ip hb' = Inr r'"
proof (cases "1 \<le> n")
  case False
  then show ?thesis
    by (simp add: overlay_loop.simps [of 1 n ip hb'])
next
  case True
  have "\<not> (int (length ip) < n \<or> int (length hb) < n)"
  proof
    assume "int (length ip) < n \<or> int (length hb) < n"
    from overlay_loop_Inl [OF _ True this] assms(1) show False
      by simp
  qed
  then have "n \<le> int (length ip)" "n \<le> int (length hb')"
    using assms(2) by simp_all
  from overlay_loop_Inr [OF _ this] show ?thesis
    by auto
qed

lemma getOverlayAddr_any_key:
  assumes "getOverlayAddr net k = Inr a"
  shows "\<exists>a'. getOverlayAddr net k' = Inr a'"
proof -
  obtain bits sz where s: "Size (net_Mask net) = (bits, sz)"
    by (cases "Size (net_Mask net)")
  from assms obtain r where "overlay_loop 1 ((sz - bits) sdiv 8) (net_IP net) (Sum256 k) = Inr r"
    by (auto simp: getOverlayAddr_def s Let_def split: sum.splits)
  from overlay_loop_any_digest [OF this, of "Sum256 k'"]
  obtain r' where "overlay_loop 1 ((sz - bits) sdiv 8) (net_IP net) (Sum256 k') = Inr r'"
    by (auto simp: length_Sum256)
  then show ?thesis
    by (simp add: getOverlayAddr_def s)
qed

lemma nextDelay_eq:
  "nextDelay os \<sigma> =
     (Second * (uint (fst (rand_Int os (world \<sigma>))) smod 20 + 20),
      \<lparr>world = snd (rand_Int os (world \<sigma>)), calls = calls \<sigma> @ [Call_rand_Int]\<rparr>)"
  by (simp add: nextDelay_def invoke_eq)

lemma nextDelay_range:
  "20 * Second \<le> fst (nextDelay os \<sigma>) \<and> fst (nextDelay os \<sigma>) < 40 * Second"
proof -
  define r where "r = uint (fst (rand_Int os (world \<sigma>)))"
  have "0 \<le> r"
    by (simp add: r_def)
  then have "r smod 20 = r mod 20"
    by (simp add: signed_modulo_int_def sgn_if)
  then have "0 \<le> r smod 20" "r smod 20 < 20"
    by simp_all
  then show ?thesis
    by (simp add: nextDelay_eq Second_def r_def)
qed

lemma submitted_configs_append:
  "submitted_configs (xs @ ys) = submitted_configs xs @ submitted_configs ys"
  by (induction xs rule: submitted_configs.induct) simp_all

lemma fetchPeers_sys:
  "snd (fetchPeers lib os server \<sigma>) =
     \<lparr>world = snd (http_Get os \<lparr>url_Scheme = ''http'', url_Host = TCPAddr_String lib server,
                                 url_Path = ''/''\<rparr> (world \<sigma>)),
      calls = calls \<sigma> @ [Call_http_Get \<lparr>url_Scheme = ''http'',
                                        url_Host = TCPAddr_String lib server, url_Path = ''/''\<rparr>]\<rparr>"
  by (simp add: fetchPeers_def invoke_eq Let_def split: sum.splits)

lemma AddPeers_returns:
  assumes "getOverlayAddr (OverlayNetwork s) k = Inr a"
  shows "\<exists>r \<sigma>'. AddPeers lib s peers \<sigma> = (Inr r, \<sigma>')"
proof -
  have "\<forall>p\<in>set peers. PublicKey p \<noteq> State_PublicKey s \<longrightarrow>
          (\<exists>addr. getOverlayAddr (OverlayNetwork s) (PublicKey p) = Inr addr)"
    using getOverlayAddr_any_key [OF assms] by blast
  from AddPeers_loop_returns [OF this, of lib "[]"]
  obtain config where "AddPeers_loop lib s peers [] = Inr config"
    by blast
  from AddPeers_Inr [OF this, of \<sigma>] show ?thesis
    by blast
qed

section \<open>Reconciliation adds and overwrites, it does not replace\<close>

text \<open>
  C7: whatever the \<^verbatim>\<open>State\<close> and the list of peer records, every configuration \<^verbatim>\<open>AddPeers\<close>
  submits has the flag \<^verbatim>\<open>ReplacePeers\<close> unset and no peer config that asks for a removal.
  Applied as an upsert by identity, such a configuration leaves the entry of every
  identity that is not in the submitted list as it was, and every identity that was
  configured stays configured.
\<close>

theorem AddPeers_upserts:
  "\<exists>new. calls (snd (AddPeers lib s peers \<sigma>)) = calls \<sigma> @ new
     \<and> (\<forall>cfg\<in>set (submitted_configs new).
            \<not> cf_ReplacePeers cfg
            \<and> (\<forall>pc\<in>set (cf_Peers cfg). \<not> pc_Remove pc)
            \<and> (\<forall>t k. k \<notin> pc_PublicKey ` set (cf_Peers cfg) \<longrightarrow> apply_Config cfg t k = t k)
            \<and> (\<forall>t. dom t \<subseteq> dom (apply_Config cfg t)))"
proof -
  from AddPeers_panic_or_submit [of lib s peers \<sigma>] show ?thesis
  proof (elim disjE exE conjE)
    fix e
    assume "AddPeers lib s peers \<sigma> = (Inl e, \<sigma>)"
    then show ?thesis
      by (intro exI [of _ "[]"]) simp
  next
    fix config r
    let ?cfg = "\<lparr>cf_PrivateKey = None, cf_ListenPort = None, cf_FirewallMark = None,
                  cf_ReplacePeers = False, cf_Peers = config\<rparr>"
    assume a: "AddPeers lib s peers \<sigma> =
           (Inr r, \<lparr>world = snd (ConfigureDevice (client s) (iface s) ?cfg (world \<sigma>)),
             calls = calls \<sigma> @ [Call_ConfigureDevice (iface s) ?cfg]\<rparr>)"
      and l: "list_all2 (submits lib (OverlayNetwork s)) config
                (filter (\<lambda>p. PublicKey p \<noteq> State_PublicKey s) peers)"
    have rm: "\<not> pc_Remove pc" if "pc \<in> set config" for pc
      using list_all2_set1 [OF l that] by (auto simp: submits_def)
    have "calls (snd (AddPeers lib s peers \<sigma>)) = calls \<sigma> @ [Call_ConfigureDevice (iface s) ?cfg]"
      by (simp add: a)
    moreover have "\<not> cf_ReplacePeers ?cfg"
      by simp
    moreover have "\<forall>pc\<in>set (cf_Peers ?cfg). \<not> pc_Remove pc"
      using rm by simp
    moreover have "\<forall>t k. k \<notin> pc_PublicKey ` set (cf_Peers ?cfg) \<longrightarrow> apply_Config ?cfg t k = t k"
      by (simp add: apply_Config_def fold_upsert_other)
    moreover have "\<forall>t. dom t \<subseteq> dom (apply_Config ?cfg t)"
      by (simp add: apply_Config_def fold_upsert_dom)
    ultimately show ?thesis
      by (intro exI [of _ "[Call_ConfigureDevice (iface s) ?cfg]"]) simp
  qed
qed

theorem AddPeers_upserts_witness:
  "\<exists>new cfg pc.
      calls (snd (AddPeers stub_Lib stub_State [peer_A, peer_B] sys0)) = calls sys0 @ new
      \<and> submitted_configs new = [cfg]
      \<and> cf_Peers cfg = [pc]
      \<and> pc_PublicKey pc = key_B
      \<and> \<not> cf_ReplacePeers cfg
      \<and> \<not> pc_Remove pc
      \<and> key_C \<notin> pc_PublicKey ` set (cf_Peers cfg)
      \<and> apply_Config cfg [key_C \<mapsto> pc] key_C = Some pc
      \<and> dom [key_C \<mapsto> pc] \<subseteq> dom (apply_Config cfg [key_C \<mapsto> pc])"
proof -
  from AddPeers_upserts [of stub_Lib stub_State "[peer_A, peer_B]" sys0]
  obtain new where all:
    "calls (snd (AddPeers stub_Lib stub_State [peer_A, peer_B] sys0)) = calls sys0 @ new
     \<and> (\<forall>cfg\<in>set (submitted_configs new).
            \<not> cf_ReplacePeers cfg
            \<and> (\<forall>pc\<in>set (cf_Peers cfg). \<not> pc_Remove pc)
            \<and> (\<forall>t k. k \<notin> pc_PublicKey ` set (cf_Peers cfg) \<longrightarrow> apply_Config cfg t k = t k)
            \<and> (\<forall>t. dom t \<subseteq> dom (apply_Config cfg t)))" ..
  note n = all [THEN conjunct1] and p = all [THEN conjunct2, rule_format]
  have "calls sys0 = []"
    by (simp add: sys0_def)
  with n have "new = calls (snd (AddPeers stub_Lib stub_State [peer_A, peer_B] sys0))"
    by simp
  then obtain cfg pc where new: "submitted_configs new = [cfg]" and ps: "cf_Peers cfg = [pc]"
    and k: "pc_PublicKey pc = key_B"
    by (simp add: AddPeers_stub)
  have c: "cfg \<in> set (submitted_configs new)" and m: "pc \<in> set (cf_Peers cfg)"
    by (simp_all add: new ps)
  have ne: "key_C \<notin> pc_PublicKey ` set (cf_Peers cfg)"
    by (simp add: ps k key_B_def key_C_def)
  from p [OF c] ne m
  have "\<not> cf_ReplacePeers cfg" "\<not> pc_Remove pc"
    "apply_Config cfg [key_C \<mapsto> pc] key_C = [key_C \<mapsto> pc] key_C"
    "dom [key_C \<mapsto> pc] \<subseteq> dom (apply_Config cfg [key_C \<mapsto> pc])"
    by blast+
  with n new ps k ne show ?thesis
    by (intro exI [of _ new] exI [of _ cfg] exI [of _ pc]) simp
qed

section \<open>Teardown of an interface that is not there\<close>

text \<open>
  C8: when the device query of the control plane fails with an error for which
  \<^verbatim>\<open>os.IsNotExist\<close> holds, \<^verbatim>\<open>DownInterface\<close> returns \<^verbatim>\<open>nil\<close>, and the query is the only call
  it makes: the link is neither looked up nor deleted.
\<close>

theorem DownInterface_absent:
  assumes "Device (client s) (iface s) (world \<sigma>) = (Inl err, w')" and "os_IsNotExist err"
  shows "DownInterface os s \<sigma> = (None, \<lparr>world = w', calls = calls \<sigma> @ [Call_Device (iface s)]\<rparr>)"
  using assms by (simp add: DownInterface_def invoke_eq)

theorem DownInterface_absent_witness:
  "Device (client stub_State) (iface stub_State) (world sys0) = (Inl (NotExist ''wg0''), 1)
   \<and> os_IsNotExist (NotExist ''wg0'')
   \<and> DownInterface stub_OS stub_State sys0 = (None, \<lparr>world = 1, calls = [Call_Device ''wg0'']\<rparr>)"
proof -
  have h: "Device (client stub_State) (iface stub_State) (world sys0) = (Inl (NotExist ''wg0''), 1)"
    "os_IsNotExist (NotExist ''wg0'')"
    by (simp_all add: stub_State_def stub_Client_def sys0_def)
  from DownInterface_absent [OF h, of stub_OS] h show ?thesis
    by (simp add: stub_State_def sys0_def)
qed

section \<open>Every attempt ends with the next delay\<close>

text \<open>
  C2: when \<^verbatim>\<open>fetchPeers\<close> fails, \<^verbatim>\<open>updatePeers\<close> calls nothing but the HTTP request and
  \<^verbatim>\<open>rand.Int\<close>, so it submits no configuration to the control plane, and it ends with a
  delay of at least 20 and less than 40 seconds. With a \<^verbatim>\<open>State\<close> as \<^verbatim>\<open>New\<close> makes it (the
  overlay address is the one derived from the overlay network and the node's own key),
  \<^verbatim>\<open>updatePeers\<close> ends with such a delay whatever the directory and the control plane
  answer.
\<close>

theorem updatePeers_nextDelay:
  "(\<forall>err \<sigma>1. fetchPeers lib os serverAddr \<sigma> = (Inl err, \<sigma>1) \<longrightarrow>
      (\<exists>d. updatePeers lib os wg serverAddr preshardKey \<sigma> =
              (Inr d,
               \<lparr>world = snd (rand_Int os (snd (http_Get os
                           \<lparr>url_Scheme = ''http'', url_Host = TCPAddr_String lib serverAddr,
                            url_Path = ''/''\<rparr> (world \<sigma>)))),
                calls = calls \<sigma> @
                  [Call_http_Get \<lparr>url_Scheme = ''http'', url_Host = TCPAddr_String lib serverAddr,
                                  url_Path = ''/''\<rparr>,
                   Call_rand_Int]\<rparr>)
            \<and> 20 * Second \<le> d \<and> d < 40 * Second))
   \<and> submitted_configs (calls \<sigma> @
         [Call_http_Get \<lparr>url_Scheme = ''http'', url_Host = TCPAddr_String lib serverAddr,
                         url_Path = ''/''\<rparr>,
          Call_rand_Int]) = submitted_configs (calls \<sigma>)
   \<and> (getOverlayAddr (OverlayNetwork wg) (State_PublicKey wg) = Inr (OverlayAddr wg) \<longrightarrow>
        (\<exists>d \<sigma>'. updatePeers lib os wg serverAddr preshardKey \<sigma> = (Inr d, \<sigma>')
                \<and> 20 * Second \<le> d \<and> d < 40 * Second))"
proof (intro conjI allI impI)
  fix err \<sigma>1
  assume f: "fetchPeers lib os serverAddr \<sigma> = (Inl err, \<sigma>1)"
  with fetchPeers_sys [of lib os serverAddr \<sigma>]
  have s1: "\<sigma>1 = \<lparr>world = snd (http_Get os \<lparr>url_Scheme = ''http'',
                        url_Host = TCPAddr_String lib serverAddr, url_Path = ''/''\<rparr> (world \<sigma>)),
      calls = calls \<sigma> @ [Call_http_Get \<lparr>url_Scheme = ''http'',
                        url_Host = TCPAddr_String lib serverAddr, url_Path = ''/''\<rparr>]\<rparr>"
    by simp
  have "updatePeers lib os wg serverAddr preshardKey \<sigma> =
          (Inr (fst (nextDelay os \<sigma>1)), snd (nextDelay os \<sigma>1))"
    using f by (simp add: updatePeers_def split: prod.splits)
  moreover have "snd (nextDelay os \<sigma>1) =
      \<lparr>world = snd (rand_Int os (world \<sigma>1)), calls = calls \<sigma>1 @ [Call_rand_Int]\<rparr>"
    by (simp add: nextDelay_eq)
  ultimately show "\<exists>d. updatePeers lib os wg serverAddr preshardKey \<sigma> =
              (Inr d,
               \<lparr>world = snd (rand_Int os (snd (http_Get os
                           \<lparr>url_Scheme = ''http'', url_Host = TCPAddr_String lib serverAddr,
                            url_Path = ''/''\<rparr> (world \<sigma>)))),
                calls = calls \<sigma> @
                  [Call_http_Get \<lparr>url_Scheme = ''http'', url_Host = TCPAddr_String lib serverAddr,
                                  url_Path = ''/''\<rparr>,
                   Call_rand_Int]\<rparr>)
            \<and> 20 * Second \<le> d \<and> d < 40 * Second"
    using nextDelay_range [of os \<sigma>1] by (simp add: s1)
next
  show "submitted_configs (calls \<sigma> @
         [Call_http_Get \<lparr>url_Scheme = ''http'', url_Host = TCPAddr_String lib serverAddr,
                         url_Path = ''/''\<rparr>,
          Call_rand_Int]) = submitted_configs (calls \<sigma>)"
    by (simp add: submitted_configs_append)
next
  assume inv: "getOverlayAddr (OverlayNetwork wg) (State_PublicKey wg) = Inr (OverlayAddr wg)"
  obtain res \<sigma>1 where f: "fetchPeers lib os serverAddr \<sigma> = (res, \<sigma>1)"
    by (cases "fetchPeers lib os serverAddr \<sigma>")
  show "\<exists>d \<sigma>'. updatePeers lib os wg serverAddr preshardKey \<sigma> = (Inr d, \<sigma>')
                \<and> 20 * Second \<le> d \<and> d < 40 * Second"
  proof (cases res)
    case (Inl err)
    with f have "updatePeers lib os wg serverAddr preshardKey \<sigma> =
          (Inr (fst (nextDelay os \<sigma>1)), snd (nextDelay os \<sigma>1))"
      by (simp add: updatePeers_def split: prod.splits)
    with nextDelay_range [of os \<sigma>1] show ?thesis
      by blast
  next
    case (Inr peers)
    from AddPeers_returns [OF inv, of lib "map (\<lambda>p. p\<lparr>PresharedKey := preshardKey\<rparr>) peers" \<sigma>1]
    obtain r \<sigma>2 where "AddPeers lib wg (map (\<lambda>p. p\<lparr>PresharedKey := preshardKey\<rparr>) peers) \<sigma>1 = (Inr r, \<sigma>2)"
      by blast
    with f Inr have "updatePeers lib os wg serverAddr preshardKey \<sigma> =
          (Inr (fst (nextDelay os \<sigma>2)), snd (nextDelay os \<sigma>2))"
      by (simp add: updatePeers_def split: prod.splits)
    with nextDelay_range [of os \<sigma>2] show ?thesis
      by blast
  qed
qed

theorem updatePeers_nextDelay_witness:
  "fetchPeers stub_Lib stub_OS \<lparr>tcp_IP = [10, 1, 2, 3], tcp_Port = 8080\<rparr> sys0 =
     (Inl (Failure ''connection refused''),
      \<lparr>world = 1,
       calls = [Call_http_Get \<lparr>url_Scheme = ''http'', url_Host = ''10.1.2.3:8080'',
                              url_Path = ''/''\<rparr>]\<rparr>)
   \<and> (\<exists>d. updatePeers stub_Lib stub_OS stub_State \<lparr>tcp_IP = [10, 1, 2, 3], tcp_Port = 8080\<rparr>
               zeroKey sys0 =
             (Inr d,
              \<lparr>world = 2,
               calls = [Call_http_Get \<lparr>url_Scheme = ''http'', url_Host = ''10.1.2.3:8080'',
                                      url_Path = ''/''\<rparr>,
                        Call_rand_Int]\<rparr>)
           \<and> 20 * Second \<le> d \<and> d < 40 * Second)
   \<and> getOverlayAddr (OverlayNetwork stub_State) (State_PublicKey stub_State) =
       Inr (OverlayAddr stub_State)
   \<and> (\<exists>d \<sigma>'. updatePeers (dir_Lib [peer_A, peer_B]) dir_OS stub_State
                  \<lparr>tcp_IP = [10, 1, 2, 3], tcp_Port = 8080\<rparr> key_C sys0 = (Inr d, \<sigma>')
         \<and> 20 * Second \<le> d \<and> d < 40 * Second)"
proof -
  let ?server = "\<lparr>tcp_IP = [10, 1, 2, 3], tcp_Port = 8080\<rparr>"
  have f: "fetchPeers stub_Lib stub_OS ?server sys0 =
     (Inl (Failure ''connection refused''),
      \<lparr>world = 1,
       calls = [Call_http_Get \<lparr>url_Scheme = ''http'', url_Host = ''10.1.2.3:8080'',
                              url_Path = ''/''\<rparr>]\<rparr>)"
    by (simp add: fetchPeers_def invoke_eq stub_Lib_def stub_OS_def sys0_def)
  have inv: "getOverlayAddr (OverlayNetwork stub_State) (State_PublicKey stub_State) =
       Inr (OverlayAddr stub_State)"
    by (simp add: stub_State_def getOverlayAddr_key_A)
  have w: "world sys0 = 0" "calls sys0 = []"
    "TCPAddr_String stub_Lib ?server = ''10.1.2.3:8080''"
    "snd (http_Get stub_OS \<lparr>url_Scheme = ''http'', url_Host = ''10.1.2.3:8080'',
                              url_Path = ''/''\<rparr> 0) = 1"
    "snd (rand_Int stub_OS (Suc 0)) = 2"
    by (simp_all add: sys0_def stub_Lib_def stub_OS_def)
  note t1 = updatePeers_nextDelay [of stub_Lib stub_OS ?server sys0 stub_State zeroKey,
      THEN conjunct1, rule_format, OF f]
  note t2 = updatePeers_nextDelay [of "dir_Lib [peer_A, peer_B]" dir_OS ?server sys0 stub_State key_C,
      THEN conjunct2, THEN conjunct2, rule_format, OF inv]
  from t1 have "\<exists>d. updatePeers stub_Lib stub_OS stub_State ?server zeroKey sys0 =
             (Inr d,
              \<lparr>world = 2,
               calls = [Call_http_Get \<lparr>url_Scheme = ''http'', url_Host = ''10.1.2.3:8080'',
                                      url_Path = ''/''\<rparr>,
                        Call_rand_Int]\<rparr>)
           \<and> 20 * Second \<le> d \<and> d < 40 * Second"
    by (simp add: w)
  with f inv t2 show ?thesis
    by simp
qed

section \<open>The overlay address of a \<^verbatim>\<open>State\<close>\<close>

lemma call_op_State: "call_op lib os m (s, \<sigma>) = (s, snd (call_op lib os m (s, \<sigma>)))"
  by (cases m) simp_all

lemma fold_call_op_State: "fst (fold (call_op lib os) ops (s, \<sigma>)) = s"
proof (induction ops arbitrary: \<sigma>)
  case Nil
  then show ?case by simp
next
  case (Cons m ops)
  have "fold (call_op lib os) (m # ops) (s, \<sigma>) =
          fold (call_op lib os) ops (s, snd (call_op lib os m (s, \<sigma>)))"
    using call_op_State [of lib os m s \<sigma>] by simp
  then show ?case
    by (simp only: Cons.IH)
qed

lemma New_Inr:
  assumes "New lib os ifname lport overlayNet privKey \<sigma> = (Inr (Inr s), \<sigma>')"
  shows "\<exists>cl priv addr.
           fst (wgctrl_New os (world \<sigma>)) = Inr cl
           \<and> ParseKey lib privKey = Inr priv
           \<and> getOverlayAddr overlayNet (Key_PublicKey lib priv) = Inr addr
           \<and> s = \<lparr>iface = ifname, client = cl, OverlayNetwork = overlayNet, OverlayAddr = addr,
                   port = lport, privateKey = priv, State_PublicKey = Key_PublicKey lib priv\<rparr>"
  using assms
  by (auto simp: New_def invoke_eq Let_def split: sum.splits)

lemma New_returns:
  assumes "fst (wgctrl_New os (world \<sigma>)) = Inr cl" and "ParseKey lib privKey = Inr priv"
    and "getOverlayAddr overlayNet (Key_PublicKey lib priv) = Inr addr"
  shows "New lib os ifname lport overlayNet privKey \<sigma> =
           (Inr (Inr \<lparr>iface = ifname, client = cl, OverlayNetwork = overlayNet, OverlayAddr = addr,
                      port = lport, privateKey = priv, State_PublicKey = Key_PublicKey lib priv\<rparr>),
            \<lparr>world = snd (wgctrl_New os (world \<sigma>)), calls = calls \<sigma> @ [Call_wgctrl_New]\<rparr>)"
  using assms by (simp add: New_def invoke_eq Let_def)

lemma New_stub:
  "New stub_Lib stub_OS ''wg0'' 0 net10 ''AAAAAAAAAAAAAAAAAAAAAAAAAAAAAAAAAAAAAAAAAAA='' sys0 =
     (Inr (Inr stub_State), \<lparr>world = 1, calls = [Call_wgctrl_New]\<rparr>)"
proof -
  have "fst (wgctrl_New stub_OS (world sys0)) = Inr stub_Client"
    "ParseKey stub_Lib ''AAAAAAAAAAAAAAAAAAAAAAAAAAAAAAAAAAAAAAAAAAA='' = Inr (replicate 32 7)"
    "getOverlayAddr net10 (Key_PublicKey stub_Lib (replicate 32 7)) =
       Inr \<lparr>net_IP = [10, 231, 60, 42], net_Mask = [0xff, 0xff, 0xff, 0xff]\<rparr>"
    using getOverlayAddr_key_A by (simp_all add: stub_OS_def stub_Lib_def key_A_def)
  from New_returns [OF this, of "''wg0''" 0] show ?thesis
    by (simp add: stub_State_def stub_Lib_def stub_OS_def sys0_def key_A_def)
qed

text \<open>
  C10: a \<^verbatim>\<open>State\<close> that \<^verbatim>\<open>New\<close> returns holds the private key parsed from the string, the
  public key derived from it, the overlay network it was given, and as overlay address
  the one \<^verbatim>\<open>getOverlayAddr\<close> derives from that network and that public key; \<^verbatim>\<open>New\<close> returns
  a \<^verbatim>\<open>State\<close> whenever the network is a network prefix, the control-plane client can be
  made and the key parses. \<^verbatim>\<open>GetOverlayAddress\<close> returns what \<^verbatim>\<open>getOverlayAddr\<close> derives from
  the overlay network of the \<^verbatim>\<open>State\<close>. After any sequence of calls of the methods of
  \<^verbatim>\<open>State\<close>, the overlay network and the overlay address are what they were.
\<close>

theorem New_overlay_address:
  "(\<forall>s \<sigma>'. New lib os ifname lport overlayNet privKey \<sigma> = (Inr (Inr s), \<sigma>') \<longrightarrow>
       (\<exists>priv. ParseKey lib privKey = Inr priv \<and> privateKey s = priv
          \<and> State_PublicKey s = Key_PublicKey lib priv)
       \<and> OverlayNetwork s = overlayNet
       \<and> getOverlayAddr (OverlayNetwork s) (State_PublicKey s) = Inr (OverlayAddr s))
   \<and> (\<forall>cl priv. network_prefix overlayNet \<longrightarrow> fst (wgctrl_New os (world \<sigma>)) = Inr cl \<longrightarrow>
         ParseKey lib privKey = Inr priv \<longrightarrow>
         (\<exists>s \<sigma>'. New lib os ifname lport overlayNet privKey \<sigma> = (Inr (Inr s), \<sigma>')))
   \<and> GetOverlayAddress s0 k = getOverlayAddr (OverlayNetwork s0) k
   \<and> OverlayNetwork (fst (fold (call_op lib os) ops (s0, \<sigma>0))) = OverlayNetwork s0
   \<and> OverlayAddr (fst (fold (call_op lib os) ops (s0, \<sigma>0))) = OverlayAddr s0"
proof (intro conjI allI impI)
  fix s \<sigma>'
  assume n: "New lib os ifname lport overlayNet privKey \<sigma> = (Inr (Inr s), \<sigma>')"
  from New_Inr [OF n] obtain cl priv addr where p: "ParseKey lib privKey = Inr priv"
    and a: "getOverlayAddr overlayNet (Key_PublicKey lib priv) = Inr addr"
    and s: "s = \<lparr>iface = ifname, client = cl, OverlayNetwork = overlayNet, OverlayAddr = addr,
                   port = lport, privateKey = priv, State_PublicKey = Key_PublicKey lib priv\<rparr>"
    by blast
  show "\<exists>priv. ParseKey lib privKey = Inr priv \<and> privateKey s = priv
          \<and> State_PublicKey s = Key_PublicKey lib priv"
    using p s by simp
  show "OverlayNetwork s = overlayNet"
    using s by simp
  show "getOverlayAddr (OverlayNetwork s) (State_PublicKey s) = Inr (OverlayAddr s)"
    using a s by simp
next
  fix cl priv
  assume "network_prefix overlayNet" and c: "fst (wgctrl_New os (world \<sigma>)) = Inr cl"
    and p: "ParseKey lib privKey = Inr priv"
  from getOverlayAddr_returns [OF this(1), of "Key_PublicKey lib priv"]
  obtain addr where "getOverlayAddr overlayNet (Key_PublicKey lib priv) = Inr addr"
    by blast
  from New_returns [OF c p this]
  show "\<exists>s \<sigma>'. New lib os ifname lport overlayNet privKey \<sigma> = (Inr (Inr s), \<sigma>')"
    by blast
next
  show "GetOverlayAddress s0 k = getOverlayAddr (OverlayNetwork s0) k"
    by (simp add: GetOverlayAddress_def)
  show "OverlayNetwork (fst (fold (call_op lib os) ops (s0, \<sigma>0))) = OverlayNetwork s0"
    by (simp only: fold_call_op_State)
  show "OverlayAddr (fst (fold (call_op lib os) ops (s0, \<sigma>0))) = OverlayAddr s0"
    by (simp only: fold_call_op_State)
qed

theorem New_overlay_address_witness:
  "New stub_Lib stub_OS ''wg0'' 0 net10 ''AAAAAAAAAAAAAAAAAAAAAAAAAAAAAAAAAAAAAAAAAAA='' sys0 =
     (Inr (Inr stub_State), \<lparr>world = 1, calls = [Call_wgctrl_New]\<rparr>)
   \<and> network_prefix net10
   \<and> fst (wgctrl_New stub_OS (world sys0)) = Inr stub_Client
   \<and> ParseKey stub_Lib ''AAAAAAAAAAAAAAAAAAAAAAAAAAAAAAAAAAAAAAAAAAA='' = Inr (replicate 32 7)
   \<and> privateKey stub_State = replicate 32 7
   \<and> State_PublicKey stub_State = Key_PublicKey stub_Lib (replicate 32 7)
   \<and> OverlayNetwork stub_State = net10
   \<and> getOverlayAddr (OverlayNetwork stub_State) (State_PublicKey stub_State) =
       Inr (OverlayAddr stub_State)
   \<and> OverlayAddr stub_State = \<lparr>net_IP = [10, 231, 60, 42], net_Mask = [0xff, 0xff, 0xff, 0xff]\<rparr>
   \<and> GetOverlayAddress stub_State key_B = getOverlayAddr net10 key_B
   \<and> OverlayAddr (fst (fold (call_op stub_Lib stub_OS)
         [Op_SetUpInterface, Op_AddPeers [peer_A, peer_B], Op_GetPeers, Op_GetOverlayAddress key_B,
          Op_DownInterface] (stub_State, sys0))) = OverlayAddr stub_State
   \<and> OverlayNetwork (fst (fold (call_op stub_Lib stub_OS)
         [Op_SetUpInterface, Op_AddPeers [peer_A, peer_B], Op_GetPeers, Op_GetOverlayAddress key_B,
          Op_DownInterface] (stub_State, sys0))) = net10"
proof -
  let ?ops = "[Op_SetUpInterface, Op_AddPeers [peer_A, peer_B], Op_GetPeers,
               Op_GetOverlayAddress key_B, Op_DownInterface]"
  note t = New_overlay_address [of stub_Lib stub_OS "''wg0''" 0 net10
      "''AAAAAAAAAAAAAAAAAAAAAAAAAAAAAAAAAAAAAAAAAAA=''" sys0 stub_State key_B ?ops sys0]
  note t1 = t [THEN conjunct1, rule_format, OF New_stub]
  have p: "ParseKey stub_Lib ''AAAAAAAAAAAAAAAAAAAAAAAAAAAAAAAAAAAAAAAAAAA='' = Inr (replicate 32 7)"
    and c: "fst (wgctrl_New stub_OS (world sys0)) = Inr stub_Client"
    by (simp_all add: stub_Lib_def stub_OS_def)
  from t1 p have "privateKey stub_State = replicate 32 7"
    "State_PublicKey stub_State = Key_PublicKey stub_Lib (replicate 32 7)"
    "OverlayNetwork stub_State = net10"
    "getOverlayAddr (OverlayNetwork stub_State) (State_PublicKey stub_State) =
       Inr (OverlayAddr stub_State)"
    by auto
  moreover have "OverlayAddr stub_State =
      \<lparr>net_IP = [10, 231, 60, 42], net_Mask = [0xff, 0xff, 0xff, 0xff]\<rparr>"
    by (simp add: stub_State_def)
  moreover from t have "GetOverlayAddress stub_State key_B = getOverlayAddr (OverlayNetwork stub_State) key_B"
    "OverlayNetwork (fst (fold (call_op stub_Lib stub_OS) ?ops (stub_State, sys0))) = OverlayNetwork stub_State"
    "OverlayAddr (fst (fold (call_op stub_Lib stub_OS) ?ops (stub_State, sys0))) = OverlayAddr stub_State"
    by blast+
  ultimately show ?thesis
    using New_stub network_prefix_net10 p c by simp
qed

end
